theory Spec2Isabelle
  imports Complex_Main "HOL-Library.AList" "HOL-Library.Sublist"
begin

section \<open>Health and diet tools: goals and food log over two backends\<close>

text \<open>
  The theory embeds \<^verbatim>\<open>personal_assistant/mcp_tools/health_diet_tools.py\<close>: the five
  tool operations \<^verbatim>\<open>add_health_goal\<close>, \<^verbatim>\<open>update_health_goal\<close>,
  \<^verbatim>\<open>get_health_goals\<close>, \<^verbatim>\<open>add_food_log\<close> and \<^verbatim>\<open>get_food_log\<close>, each with its
  remote branch and its in-memory branch.

  Conventions of the embedding.
  \<^item> The module globals \<^verbatim>\<open>health_goals\<close> (a dict, insertion ordered) and
    \<^verbatim>\<open>food_logs\<close> (a list) are the fields of a record that every operation takes and
    returns. The dict is an association list; \<^verbatim>\<open>d[k] = v\<close> is \<open>AList.update\<close>
    (replace in place, else append at the end).
  \<^item> A Python exception is a value of type \<open>exn\<close>; the body of an operation returns
    \<open>exn + string\<close> together with the state reached when it returned or raised, and
    the \<^verbatim>\<open>try/except Exception\<close> around the body is \<open>catch_all\<close>.
  \<^item> \<^verbatim>\<open>supabase_manager\<close> is not part of the module: its methods are the fields of a
    record of functions over an arbitrary remote state \<open>'r\<close>, each returning either
    an exception or a value, and the remote state after the call. Rows it returns are
    taken to carry every column with a value of the column's type.
  \<^item> What the surroundings decide in one call (the answer of \<^verbatim>\<open>is_connected()\<close>,
    \<^verbatim>\<open>date.today()\<close>, \<^verbatim>\<open>datetime.now()\<close>, \<^verbatim>\<open>uuid.uuid4()\<close>) is the record \<open>env\<close>.
  \<^item> A Python \<^verbatim>\<open>float\<close> is a real number: rounding is not modelled, and the two
    renderings of a float (\<^verbatim>\<open>str\<close> and the format \<^verbatim>\<open>.1f\<close>) are parameters.
    A Python \<^verbatim>\<open>int\<close> is an \<open>int\<close>, rendered in decimal.
  \<^item> Strings are byte strings; only the ASCII letters are cased.
  \<^item> An argument of a tool that has the name of a key of a dict is abbreviated
    (\<open>gtype\<close>, \<open>target\<close>, \<open>current\<close>, \<open>descr\<close>, \<open>gid\<close>, \<open>mtype\<close>, \<open>item\<close>,
    \<open>cals\<close>), the key keeps the name.
\<close>

subsection \<open>Exceptions\<close>

datatype exn =
    TypeError string
  | ZeroDivisionError string
  | ClientError string

text \<open>\<^verbatim>\<open>str(e)\<close>\<close>

fun str_exn :: "exn \<Rightarrow> string" where
  "str_exn (TypeError m) = m"
| "str_exn (ZeroDivisionError m) = m"
| "str_exn (ClientError m) = m"

text \<open>The \<^verbatim>\<open>try: ... except Exception as e: return f"<prefix>{str(e)}"\<close> of every tool.\<close>

definition catch_all :: "string \<Rightarrow> (exn + string) \<times> 's \<Rightarrow> string \<times> 's" where
  "catch_all pre r = (case fst r of Inl e \<Rightarrow> pre @ str_exn e | Inr t \<Rightarrow> t, snd r)"

subsection \<open>Strings\<close>

definition nl :: string where
  "nl = [CHR 0x0A]"

definition upper_letters :: string where
  "upper_letters = ''ABCDEFGHIJKLMNOPQRSTUVWXYZ''"

definition lower_letters :: string where
  "lower_letters = ''abcdefghijklmnopqrstuvwxyz''"

definition is_upper :: "char \<Rightarrow> bool" where
  "is_upper c = (c \<in> set upper_letters)"

definition is_lower :: "char \<Rightarrow> bool" where
  "is_lower c = (c \<in> set lower_letters)"

definition to_lower :: "char \<Rightarrow> char" where
  "to_lower c = (case map_of (zip upper_letters lower_letters) c of None \<Rightarrow> c | Some d \<Rightarrow> d)"

definition to_upper :: "char \<Rightarrow> char" where
  "to_upper c = (case map_of (zip lower_letters upper_letters) c of None \<Rightarrow> c | Some d \<Rightarrow> d)"

text \<open>\<^verbatim>\<open>s.lower()\<close>\<close>

definition py_lower :: "string \<Rightarrow> string" where
  "py_lower s = map to_lower s"

text \<open>\<^verbatim>\<open>s.title()\<close>: a letter after a letter is lowered, any other letter is raised.\<close>

fun title_from :: "bool \<Rightarrow> string \<Rightarrow> string" where
  "title_from prev [] = []"
| "title_from prev (c # cs) =
     (if is_upper c \<or> is_lower c
      then (if prev then to_lower c else to_upper c) # title_from True cs
      else c # title_from False cs)"

definition py_title :: "string \<Rightarrow> string" where
  "py_title s = title_from False s"

text \<open>\<^verbatim>\<open>str(n)\<close> of an \<^verbatim>\<open>int\<close>\<close>

function str_nat :: "nat \<Rightarrow> string" where
  "str_nat n = (if n < 10 then [''0123456789'' ! n]
                else str_nat (n div 10) @ [''0123456789'' ! (n mod 10)])"
  by pat_completeness auto
termination
  by (relation "measure (\<lambda>n. n)") auto

definition str_int :: "int \<Rightarrow> string" where
  "str_int i = (if i < 0 then ''-'' @ str_nat (nat (- i)) else str_nat (nat i))"

subsection \<open>Numbers\<close>

datatype pynum = PInt int | PFloat real

text \<open>The renderings of a float: \<^verbatim>\<open>str(x)\<close> and \<^verbatim>\<open>f"{x:.1f}"\<close>.\<close>

record float_text =
  repr_float :: "real \<Rightarrow> string"
  format_1f :: "real \<Rightarrow> string"

fun py_float :: "pynum \<Rightarrow> real" where
  "py_float (PInt i) = of_int i"
| "py_float (PFloat x) = x"

fun py_str :: "float_text \<Rightarrow> pynum \<Rightarrow> string" where
  "py_str F (PInt i) = str_int i"
| "py_str F (PFloat x) = repr_float F x"

text \<open>Truth value of a number: \<^verbatim>\<open>if x:\<close>\<close>

definition py_truthy :: "pynum \<Rightarrow> bool" where
  "py_truthy x = (py_float x \<noteq> 0)"

text \<open>Truth value of an optional int (\<^verbatim>\<open>None\<close> and \<^verbatim>\<open>0\<close> are false).\<close>

fun truthy :: "int option \<Rightarrow> bool" where
  "truthy None = False"
| "truthy (Some i) = (i \<noteq> 0)"

fun py_sub :: "pynum \<Rightarrow> pynum \<Rightarrow> pynum" where
  "py_sub (PInt a) (PInt b) = PInt (a - b)"
| "py_sub a b = PFloat (py_float a - py_float b)"

fun py_abs :: "pynum \<Rightarrow> pynum" where
  "py_abs (PInt a) = PInt \<bar>a\<bar>"
| "py_abs (PFloat x) = PFloat \<bar>x\<bar>"

text \<open>\<^verbatim>\<open>a / b\<close>: true division, which raises on a zero divisor.\<close>

definition py_truediv :: "pynum \<Rightarrow> pynum \<Rightarrow> exn + real" where
  "py_truediv a b =
     (if py_float b = 0 then Inl (ZeroDivisionError ''division by zero'')
      else Inr (py_float a / py_float b))"

subsection \<open>Data\<close>

text \<open>
  A goal dict. \<open>description = None\<close> is the Python value \<^verbatim>\<open>None\<close> under the key;
  \<open>is_active = None\<close> is the key \<^verbatim>\<open>"is_active"\<close> being absent, as it is in every
  dict the in-memory branch builds.
\<close>

record goal =
  goal_id :: string
  goal_type :: string
  target_value :: pynum
  current_value :: pynum
  description :: "string option"
  created_at :: string
  is_active :: "bool option"

text \<open>A food dict. \<open>calories = None\<close> is the Python value \<^verbatim>\<open>None\<close> under the key.\<close>

record food =
  food_id :: string
  meal_type :: string
  food_item :: string
  calories :: "int option"
  date :: string
  created_at' :: string

text \<open>The dicts handed to the remote client.\<close>

record goal_data =
  r_goal_type :: string
  r_target_value :: real
  r_current_value :: real
  r_description :: string
  r_is_active :: bool

text \<open>\<^verbatim>\<open>updates\<close>: a key is present exactly when the field is \<open>Some\<close>.\<close>

record updates =
  upd_target_value :: "real option"
  upd_current_value :: "real option"
  upd_description :: "string option"

record food_data =
  r_meal_type :: string
  r_food_item :: string
  r_calories :: "int option"
  r_date :: string

text \<open>The methods of \<^verbatim>\<open>supabase_manager\<close> that the tools call.\<close>

record 'r manager =
  sb_add_health_goal :: "goal_data \<Rightarrow> 'r \<Rightarrow> (exn + string) \<times> 'r"
  sb_update_health_goal :: "string \<Rightarrow> updates \<Rightarrow> 'r \<Rightarrow> (exn + bool) \<times> 'r"
  sb_get_health_goals :: "'r \<Rightarrow> (exn + goal list) \<times> 'r"
  sb_add_food_log :: "food_data \<Rightarrow> 'r \<Rightarrow> (exn + string) \<times> 'r"
  sb_get_food_logs :: "string \<Rightarrow> 'r \<Rightarrow> (exn + food list) \<times> 'r"

text \<open>What one call reads from its surroundings.\<close>

record env =
  connected :: bool
  today :: string
  uuid1 :: string
  uuid2 :: string
  now1 :: string
  now2 :: string

text \<open>The two module globals, and the state of the remote store.\<close>

record 'r world =
  health_goals :: "(string \<times> goal) list"
  food_logs :: "food list"
  remote :: 'r

subsection \<open>Goal operations\<close>

text \<open>\<^verbatim>\<open>add_health_goal(goal_type, target_value, description=None, daily_calorie_goal=None)\<close>\<close>

definition add_health_goal_body ::
  "'r manager \<Rightarrow> float_text \<Rightarrow> env \<Rightarrow> string \<Rightarrow> real \<Rightarrow> string option \<Rightarrow> int option
    \<Rightarrow> 'r world \<Rightarrow> (exn + string) \<times> 'r world" where
  "add_health_goal_body M F e gtype target descr daily_calorie_goal w =
     (if connected e then
        (let goal_data = \<lparr>r_goal_type = py_lower gtype, r_target_value = target,
                          r_current_value = 0,
                          r_description = (case descr of None \<Rightarrow> [] | Some d \<Rightarrow> d),
                          r_is_active = True\<rparr>
         in case sb_add_health_goal M goal_data (remote w) of
              (Inl x, r1) \<Rightarrow> (Inl x, w\<lparr>remote := r1\<rparr>)
            | (Inr gid, r1) \<Rightarrow>
                (let result = ''Health goal added successfully!'' @ nl @ nl @ ''Goal: ''
                       @ py_title gtype @ nl @ ''Target: '' @ repr_float F target @ nl
                       @ ''Goal ID: '' @ gid
                 in if truthy daily_calorie_goal then
                      (let calorie_goal_data =
                             \<lparr>r_goal_type = ''daily_calories'',
                              r_target_value = of_int (the daily_calorie_goal),
                              r_current_value = 0,
                              r_description = ''Daily calorie intake target'',
                              r_is_active = True\<rparr>
                       in case sb_add_health_goal M calorie_goal_data r1 of
                            (Inl x, r2) \<Rightarrow> (Inl x, w\<lparr>remote := r2\<rparr>)
                          | (Inr cid, r2) \<Rightarrow>
                              (Inr (result @ nl @ nl @ ''Daily Calorie Goal: ''
                                      @ str_int (the daily_calorie_goal) @ '' calories'' @ nl
                                      @ ''Calorie Goal ID: '' @ cid),
                               w\<lparr>remote := r2\<rparr>))
                    else (Inr result, w\<lparr>remote := r1\<rparr>)))
      else
        (let gid = uuid1 e;
             goal_data = \<lparr>goal_id = gid, goal_type = py_lower gtype,
                          target_value = PFloat target, current_value = PFloat 0,
                          description = descr, created_at = now1 e, is_active = None\<rparr>;
             w1 = w\<lparr>health_goals := AList.update gid goal_data (health_goals w)\<rparr>;
             result = ''Health goal added successfully! (Local Storage)'' @ nl @ nl
                        @ ''Goal: '' @ py_title gtype @ nl @ ''Target: ''
                        @ repr_float F target @ nl @ ''Goal ID: '' @ gid
         in if truthy daily_calorie_goal then
              (let cid = uuid2 e;
                   calorie_goal_data =
                     \<lparr>goal_id = cid, goal_type = ''daily_calories'',
                      target_value = PInt (the daily_calorie_goal),
                      current_value = PFloat 0,
                      description = Some ''Daily calorie intake target'',
                      created_at = now2 e, is_active = None\<rparr>
               in (Inr (result @ nl @ nl @ ''Daily Calorie Goal: ''
                          @ str_int (the daily_calorie_goal) @ '' calories'' @ nl
                          @ ''Calorie Goal ID: '' @ cid),
                   w1\<lparr>health_goals := AList.update cid calorie_goal_data (health_goals w1)\<rparr>))
            else (Inr result, w1)))"

definition add_health_goal ::
  "'r manager \<Rightarrow> float_text \<Rightarrow> env \<Rightarrow> string \<Rightarrow> real \<Rightarrow> string option \<Rightarrow> int option
    \<Rightarrow> 'r world \<Rightarrow> string \<times> 'r world" where
  "add_health_goal M F e gtype target descr daily_calorie_goal w =
     catch_all ''Error adding health goal: ''
       (add_health_goal_body M F e gtype target descr daily_calorie_goal w)"

text \<open>\<^verbatim>\<open>update_health_goal(goal_id, target_value=None, current_value=None, description=None)\<close>\<close>

definition update_health_goal_body ::
  "'r manager \<Rightarrow> float_text \<Rightarrow> env \<Rightarrow> string \<Rightarrow> real option \<Rightarrow> real option \<Rightarrow> string option
    \<Rightarrow> 'r world \<Rightarrow> (exn + string) \<times> 'r world" where
  "update_health_goal_body M F e gid target current descr w =
     (if connected e then
        (let upd = \<lparr>upd_target_value = target, upd_current_value = current,
                    upd_description = descr\<rparr>
         in case sb_update_health_goal M gid upd (remote w) of
              (Inl x, r1) \<Rightarrow> (Inl x, w\<lparr>remote := r1\<rparr>)
            | (Inr success, r1) \<Rightarrow>
                (Inr (if success
                      then ''Health goal updated successfully!'' @ nl @ nl @ ''Goal ID: '' @ gid
                             @ nl @ ''Updates applied successfully''
                      else ''Health goal '' @ gid @ '' not found or update failed''),
                 w\<lparr>remote := r1\<rparr>))
      else
        (case map_of (health_goals w) gid of
           None \<Rightarrow> (Inr (''Health goal '' @ gid @ '' not found''), w)
         | Some g \<Rightarrow>
             (let g1 = (case target of None \<Rightarrow> g | Some t \<Rightarrow> g\<lparr>target_value := PFloat t\<rparr>);
                  g2 = (case current of None \<Rightarrow> g1 | Some c \<Rightarrow> g1\<lparr>current_value := PFloat c\<rparr>);
                  g3 = (case descr of None \<Rightarrow> g2 | Some d \<Rightarrow> g2\<lparr>description := Some d\<rparr>)
              in (Inr (''Health goal updated successfully! (Local Storage)'' @ nl @ nl
                         @ ''Goal: '' @ py_title (goal_type g3) @ nl
                         @ ''Target: '' @ py_str F (target_value g3) @ nl
                         @ ''Current: '' @ py_str F (current_value g3)),
                  w\<lparr>health_goals := AList.update gid g3 (health_goals w)\<rparr>))))"

definition update_health_goal ::
  "'r manager \<Rightarrow> float_text \<Rightarrow> env \<Rightarrow> string \<Rightarrow> real option \<Rightarrow> real option \<Rightarrow> string option
    \<Rightarrow> 'r world \<Rightarrow> string \<times> 'r world" where
  "update_health_goal M F e gid target current descr w =
     catch_all ''Error updating health goal: ''
       (update_health_goal_body M F e gid target current descr w)"

text \<open>
  The progress of a goal:
  \<^verbatim>\<open>(goal.get("current_value", 0) / goal["target_value"]) * 100 if goal["target_value"] > 0 else 0\<close>
\<close>

definition progress :: "goal \<Rightarrow> exn + real" where
  "progress g =
     (if py_float (target_value g) > 0
      then (case py_truediv (current_value g) (target_value g) of
              Inl x \<Rightarrow> Inl x
            | Inr q \<Rightarrow> Inr (q * 100))
      else Inr 0)"

text \<open>The six lines that one goal adds to the listing.\<close>

definition goal_lines :: "float_text \<Rightarrow> goal \<Rightarrow> real \<Rightarrow> string" where
  "goal_lines F g p =
     py_title (goal_type g) @ nl
     @ ''  Target: '' @ py_str F (target_value g) @ nl
     @ ''  Current: '' @ py_str F (current_value g) @ nl
     @ ''  Progress: '' @ format_1f F p @ ''%'' @ nl
     @ ''  Description: '' @ (case description g of None \<Rightarrow> ''None'' | Some d \<Rightarrow> d) @ nl
     @ ''  Goal ID: '' @ goal_id g @ nl @ nl"

text \<open>\<^verbatim>\<open>for goal in goals: ...\<close> with \<^verbatim>\<open>result\<close> as the accumulator.\<close>

fun goals_loop :: "float_text \<Rightarrow> goal list \<Rightarrow> string \<Rightarrow> exn + string" where
  "goals_loop F [] result = Inr result"
| "goals_loop F (g # gs) result =
     (case progress g of
        Inl x \<Rightarrow> Inl x
      | Inr p \<Rightarrow> goals_loop F gs (result @ goal_lines F g p))"

text \<open>\<^verbatim>\<open>goal.get("is_active", True)\<close>\<close>

definition get_is_active :: "goal \<Rightarrow> bool" where
  "get_is_active g = (case is_active g of None \<Rightarrow> True | Some b \<Rightarrow> b)"

text \<open>\<^verbatim>\<open>get_health_goals()\<close>\<close>

definition get_health_goals_body ::
  "'r manager \<Rightarrow> float_text \<Rightarrow> env \<Rightarrow> 'r world \<Rightarrow> (exn + string) \<times> 'r world" where
  "get_health_goals_body M F e w =
     (if connected e then
        (case sb_get_health_goals M (remote w) of
           (Inl x, r1) \<Rightarrow> (Inl x, w\<lparr>remote := r1\<rparr>)
         | (Inr goals, r1) \<Rightarrow>
             (if goals = []
              then Inr ''No active health goals found. Add a goal to get started!''
              else goals_loop F goals (''Active Health Goals'' @ nl @ nl),
              w\<lparr>remote := r1\<rparr>))
      else
        (let active_goals = filter get_is_active (map snd (health_goals w))
         in (if active_goals = []
             then Inr ''No active health goals found. Add a goal to get started! (Local Storage)''
             else goals_loop F active_goals (''Active Health Goals (Local Storage)'' @ nl @ nl),
             w)))"

definition get_health_goals ::
  "'r manager \<Rightarrow> float_text \<Rightarrow> env \<Rightarrow> 'r world \<Rightarrow> string \<times> 'r world" where
  "get_health_goals M F e w =
     catch_all ''Error getting health goals: '' (get_health_goals_body M F e w)"

subsection \<open>Food log operations\<close>

text \<open>
  \<^verbatim>\<open>sum(f.get("calories", 0) for f in today_foods)\<close>. The key is present in every food
  dict, so \<^verbatim>\<open>get\<close> returns what is stored, and adding \<^verbatim>\<open>None\<close> to the running
  sum raises.
\<close>

definition int_plus_None :: string where
  "int_plus_None = ''unsupported operand type(s) for +: '' @ [CHR 0x27] @ ''int''
     @ [CHR 0x27] @ '' and '' @ [CHR 0x27] @ ''NoneType'' @ [CHR 0x27]"

fun sum_calories :: "int \<Rightarrow> food list \<Rightarrow> exn + int" where
  "sum_calories acc [] = Inr acc"
| "sum_calories acc (f # fs) =
     (case calories f of
        None \<Rightarrow> Inl (TypeError int_plus_None)
      | Some c \<Rightarrow> sum_calories (acc + c) fs)"

text \<open>
  The search for the daily calorie goal: the target of the first goal whose type is
  \<^verbatim>\<open>"daily_calories"\<close> (and, in the remote branch, that is active).
\<close>

fun daily_goal_local :: "goal list \<Rightarrow> pynum option" where
  "daily_goal_local [] = None"
| "daily_goal_local (g # gs) =
     (if goal_type g = ''daily_calories'' then Some (target_value g)
      else daily_goal_local gs)"

fun daily_goal_remote :: "goal list \<Rightarrow> pynum option" where
  "daily_goal_remote [] = None"
| "daily_goal_remote (g # gs) =
     (if goal_type g = ''daily_calories'' \<and> get_is_active g then Some (target_value g)
      else daily_goal_remote gs)"

text \<open>
  \<^verbatim>\<open>if daily_calorie_goal: ...\<close>: what the goal adds to \<^verbatim>\<open>result\<close>, the same
  statements in the four places where they stand.
\<close>

definition goal_commentary :: "float_text \<Rightarrow> int \<Rightarrow> pynum option \<Rightarrow> exn + string" where
  "goal_commentary F total_calories daily_calorie_goal =
     (case daily_calorie_goal of
        None \<Rightarrow> Inr []
      | Some t \<Rightarrow>
          if py_truthy t then
            (case py_truediv (PInt total_calories) t of
               Inl x \<Rightarrow> Inl x
             | Inr q \<Rightarrow>
                 (let remaining = py_sub t (PInt total_calories)
                  in Inr (nl @ nl @ ''Daily Calorie Goal: '' @ py_str F t @ '' calories''
                          @ nl @ ''Progress: '' @ format_1f F (q * 100) @ ''%''
                          @ (if py_float remaining > 0
                             then nl @ ''Remaining: '' @ py_str F remaining @ '' calories''
                             else nl @ ''Over goal by: '' @ py_str F (py_abs remaining)
                                    @ '' calories''))))
          else Inr [])"

text \<open>\<^verbatim>\<open>add_food_log(meal_type, food_item, calories=None)\<close>\<close>

definition add_food_log_body ::
  "'r manager \<Rightarrow> float_text \<Rightarrow> env \<Rightarrow> string \<Rightarrow> string \<Rightarrow> int option
    \<Rightarrow> 'r world \<Rightarrow> (exn + string) \<times> 'r world" where
  "add_food_log_body M F e mtype item cals w =
     (if connected e then
        (let fd = \<lparr>r_meal_type = py_lower mtype, r_food_item = item, r_calories = cals,
                   r_date = today e\<rparr>
         in case sb_add_food_log M fd (remote w) of
              (Inl x, r1) \<Rightarrow> (Inl x, w\<lparr>remote := r1\<rparr>)
            | (Inr fid, r1) \<Rightarrow>
                (case sb_get_food_logs M (today e) r1 of
                   (Inl x, r2) \<Rightarrow> (Inl x, w\<lparr>remote := r2\<rparr>)
                 | (Inr today_foods, r2) \<Rightarrow>
                     (case sum_calories 0 today_foods of
                        Inl x \<Rightarrow> (Inl x, w\<lparr>remote := r2\<rparr>)
                      | Inr total_calories \<Rightarrow>
                          (let result = ''Food logged successfully!'' @ nl @ nl @ ''Meal: ''
                                 @ py_title mtype @ nl @ ''Food: '' @ item @ nl
                                 @ (if truthy cals
                                    then ''Calories: '' @ str_int (the cals) @ nl else [])
                                 @ nl @ ''Today'' @ [CHR 0x27] @ ''s Total Calories: ''
                                 @ str_int total_calories
                           in case sb_get_health_goals M r2 of
                                (Inl x, r3) \<Rightarrow> (Inr result, w\<lparr>remote := r3\<rparr>)
                              | (Inr goals, r3) \<Rightarrow>
                                  (case goal_commentary F total_calories
                                          (daily_goal_remote goals) of
                                     Inl x \<Rightarrow> (Inr result, w\<lparr>remote := r3\<rparr>)
                                   | Inr c \<Rightarrow> (Inr (result @ c), w\<lparr>remote := r3\<rparr>))))))
      else
        (let fd = \<lparr>food_id = uuid1 e, meal_type = py_lower mtype, food_item = item,
                   calories = cals, date = today e, created_at' = now1 e\<rparr>;
             w1 = w\<lparr>food_logs := food_logs w @ [fd]\<rparr>;
             today_foods = filter (\<lambda>f. date f = today e) (food_logs w1)
         in case sum_calories 0 today_foods of
              Inl x \<Rightarrow> (Inl x, w1)
            | Inr total_calories \<Rightarrow>
                (let result = ''Food logged successfully! (Local Storage)'' @ nl @ nl
                       @ ''Meal: '' @ py_title mtype @ nl @ ''Food: '' @ item @ nl
                       @ (if truthy cals then ''Calories: '' @ str_int (the cals) @ nl else [])
                       @ nl @ ''Today'' @ [CHR 0x27] @ ''s Total Calories: ''
                       @ str_int total_calories
                 in case goal_commentary F total_calories
                         (daily_goal_local (map snd (health_goals w1))) of
                      Inl x \<Rightarrow> (Inl x, w1)
                    | Inr c \<Rightarrow> (Inr (result @ c), w1))))"

definition add_food_log ::
  "'r manager \<Rightarrow> float_text \<Rightarrow> env \<Rightarrow> string \<Rightarrow> string \<Rightarrow> int option
    \<Rightarrow> 'r world \<Rightarrow> string \<times> 'r world" where
  "add_food_log M F e mtype item cals w =
     catch_all ''Error adding food log: '' (add_food_log_body M F e mtype item cals w)"

text \<open>
  Grouping by meal type: \<^verbatim>\<open>if meal_type not in meals: meals[meal_type] = []\<close> followed
  by \<^verbatim>\<open>meals[meal_type].append(food)\<close>, on an insertion-ordered dict.
\<close>

fun meals_append :: "string \<Rightarrow> food \<Rightarrow> (string \<times> food list) list \<Rightarrow> (string \<times> food list) list" where
  "meals_append k f [] = [(k, [f])]"
| "meals_append k f ((k', fs) # ms) =
     (if k' = k then (k', fs @ [f]) # ms else (k', fs) # meals_append k f ms)"

fun group_meals :: "(string \<times> food list) list \<Rightarrow> food list \<Rightarrow> (string \<times> food list) list" where
  "group_meals meals [] = meals"
| "group_meals meals (f # fs) = group_meals (meals_append (meal_type f) f meals) fs"

definition int_pluseq_None :: string where
  "int_pluseq_None = ''unsupported operand type(s) for +=: '' @ [CHR 0x27] @ ''int''
     @ [CHR 0x27] @ '' and '' @ [CHR 0x27] @ ''NoneType'' @ [CHR 0x27]"

text \<open>The line of one food: the item, and the calories when they are true.\<close>

definition food_line :: "food \<Rightarrow> string" where
  "food_line f =
     ''  '' @ food_item f
     @ (if truthy (calories f) then '' ('' @ str_int (the (calories f)) @ '' cal)'' else [])
     @ nl"

text \<open>\<^verbatim>\<open>for food in foods: ...\<close> with \<^verbatim>\<open>result\<close> and \<^verbatim>\<open>meal_calories\<close>.\<close>

fun foods_loop :: "food list \<Rightarrow> string \<Rightarrow> int \<Rightarrow> exn + (string \<times> int)" where
  "foods_loop [] result meal_calories = Inr (result, meal_calories)"
| "foods_loop (f # fs) result meal_calories =
     (case calories f of
        None \<Rightarrow> Inl (TypeError int_pluseq_None)
      | Some c \<Rightarrow> foods_loop fs (result @ food_line f) (meal_calories + c))"

text \<open>\<^verbatim>\<open>for meal_type, foods in meals.items(): ...\<close> with \<^verbatim>\<open>result\<close> and \<^verbatim>\<open>total_calories\<close>.\<close>

fun meals_loop :: "(string \<times> food list) list \<Rightarrow> string \<Rightarrow> int \<Rightarrow> exn + (string \<times> int)" where
  "meals_loop [] result total_calories = Inr (result, total_calories)"
| "meals_loop ((mt, foods) # ms) result total_calories =
     (case foods_loop foods (result @ py_title mt @ nl) 0 of
        Inl x \<Rightarrow> Inl x
      | Inr (result1, meal_calories) \<Rightarrow>
          meals_loop ms
            ((if meal_calories > 0
              then result1 @ ''  Meal Total: '' @ str_int meal_calories @ '' calories'' @ nl
              else result1) @ nl)
            (total_calories + meal_calories))"

text \<open>\<^verbatim>\<open>get_food_log()\<close>\<close>

definition get_food_log_body ::
  "'r manager \<Rightarrow> float_text \<Rightarrow> env \<Rightarrow> 'r world \<Rightarrow> (exn + string) \<times> 'r world" where
  "get_food_log_body M F e w =
     (if connected e then
        (case sb_get_food_logs M (today e) (remote w) of
           (Inl x, r1) \<Rightarrow> (Inl x, w\<lparr>remote := r1\<rparr>)
         | (Inr today_foods, r1) \<Rightarrow>
             (if today_foods = [] then (Inr ''No food logged today'', w\<lparr>remote := r1\<rparr>)
              else
                (case meals_loop (group_meals [] today_foods)
                        (''Today'' @ [CHR 0x27] @ ''s Food Log'' @ nl @ nl) 0 of
                   Inl x \<Rightarrow> (Inl x, w\<lparr>remote := r1\<rparr>)
                 | Inr (result1, total_calories) \<Rightarrow>
                     (let result = result1 @ ''Daily Total: '' @ str_int total_calories
                                     @ '' calories''
                      in case sb_get_health_goals M r1 of
                           (Inl x, r2) \<Rightarrow> (Inr result, w\<lparr>remote := r2\<rparr>)
                         | (Inr goals, r2) \<Rightarrow>
                             (case goal_commentary F total_calories
                                     (daily_goal_remote goals) of
                                Inl x \<Rightarrow> (Inr result, w\<lparr>remote := r2\<rparr>)
                              | Inr c \<Rightarrow> (Inr (result @ c), w\<lparr>remote := r2\<rparr>))))))
      else
        (let today_foods = filter (\<lambda>f. date f = today e) (food_logs w)
         in if today_foods = [] then (Inr ''No food logged today (Local Storage)'', w)
            else
              (case meals_loop (group_meals [] today_foods)
                      (''Today'' @ [CHR 0x27] @ ''s Food Log (Local Storage)'' @ nl @ nl) 0 of
                 Inl x \<Rightarrow> (Inl x, w)
               | Inr (result1, total_calories) \<Rightarrow>
                   (let result = result1 @ ''Daily Total: '' @ str_int total_calories
                                   @ '' calories''
                    in case goal_commentary F total_calories
                            (daily_goal_local (map snd (health_goals w))) of
                         Inl x \<Rightarrow> (Inl x, w)
                       | Inr c \<Rightarrow> (Inr (result @ c), w)))))"

definition get_food_log ::
  "'r manager \<Rightarrow> float_text \<Rightarrow> env \<Rightarrow> 'r world \<Rightarrow> string \<times> 'r world" where
  "get_food_log M F e w =
     catch_all ''Error getting food log: '' (get_food_log_body M F e w)"

subsection \<open>Sequences of calls\<close>

text \<open>One call of a tool: what the surroundings decide in it, and its arguments.\<close>

datatype call =
    AddHealthGoal env string real "string option" "int option"
  | UpdateHealthGoal env string "real option" "real option" "string option"
  | GetHealthGoals env
  | AddFoodLog env string string "int option"
  | GetFoodLog env

fun step :: "'r manager \<Rightarrow> float_text \<Rightarrow> call \<Rightarrow> 'r world \<Rightarrow> string \<times> 'r world" where
  "step M F (AddHealthGoal e gtype target descr dcg) w = add_health_goal M F e gtype target descr dcg w"
| "step M F (UpdateHealthGoal e gid target current descr) w =
     update_health_goal M F e gid target current descr w"
| "step M F (GetHealthGoals e) w = get_health_goals M F e w"
| "step M F (AddFoodLog e mtype item cals) w = add_food_log M F e mtype item cals w"
| "step M F (GetFoodLog e) w = get_food_log M F e w"

fun env_of :: "call \<Rightarrow> env" where
  "env_of (AddHealthGoal e gtype target descr dcg) = e"
| "env_of (UpdateHealthGoal e gid target current descr) = e"
| "env_of (GetHealthGoals e) = e"
| "env_of (AddFoodLog e mtype item cals) = e"
| "env_of (GetFoodLog e) = e"

text \<open>The state after a sequence of calls (the texts returned are dropped).\<close>

fun run :: "'r manager \<Rightarrow> float_text \<Rightarrow> call list \<Rightarrow> 'r world \<Rightarrow> 'r world" where
  "run M F [] w = w"
| "run M F (c # cs) w = run M F cs (snd (step M F c w))"

text \<open>
  \<^verbatim>\<open>uuid.uuid4()\<close> returns an identifier that is not in use: the identifiers that a
  call draws for the in-memory dict are not keys of the dict.
\<close>

fun fresh_call :: "call \<Rightarrow> 'r world \<Rightarrow> bool" where
  "fresh_call (AddHealthGoal e gtype target descr dcg) w =
     (connected e \<or>
      (map_of (health_goals w) (uuid1 e) = None \<and>
       (if truthy dcg then map_of (health_goals w) (uuid2 e) = None else True)))"
| "fresh_call c w = True"

fun fresh_run :: "'r manager \<Rightarrow> float_text \<Rightarrow> call list \<Rightarrow> 'r world \<Rightarrow> bool" where
  "fresh_run M F [] w = True"
| "fresh_run M F (c # cs) w = (fresh_call c w \<and> fresh_run M F cs (snd (step M F c w)))"

subsection \<open>Concrete inputs\<close>

text \<open>
  The theorems below hold for every client and every rendering of floats. To evaluate
  them at concrete inputs, a client is needed: \<open>canned_manager\<close> answers each method
  with the response stored for it in the remote state, which it leaves as it is (the
  response to \<^verbatim>\<open>add_health_goal\<close> may depend on the dict it is given).
  \<open>one_decimal\<close> writes a whole number as Python writes the float (\<^verbatim>\<open>-10.0\<close>,
  \<^verbatim>\<open>500.0\<close>) and cuts a non-negative number after its first decimal.
\<close>

record canned =
  add_goal_resp :: "goal_data \<Rightarrow> exn + string"
  update_resp :: "exn + bool"
  goals_resp :: "exn + goal list"
  add_food_resp :: "exn + string"
  foods_resp :: "exn + food list"

definition canned_manager :: "canned manager" where
  "canned_manager = \<lparr>
     sb_add_health_goal = (\<lambda>d r. (add_goal_resp r d, r)),
     sb_update_health_goal = (\<lambda>i u r. (update_resp r, r)),
     sb_get_health_goals = (\<lambda>r. (goals_resp r, r)),
     sb_add_food_log = (\<lambda>d r. (add_food_resp r, r)),
     sb_get_food_logs = (\<lambda>d r. (foods_resp r, r))\<rparr>"

definition down :: canned where
  "down = \<lparr>add_goal_resp = (\<lambda>d. Inl (ClientError ''connection lost'')),
            update_resp = Inl (ClientError ''connection lost''),
            goals_resp = Inl (ClientError ''connection lost''),
            add_food_resp = Inl (ClientError ''connection lost''),
            foods_resp = Inl (ClientError ''connection lost'')\<rparr>"

definition one_decimal :: float_text where
  "one_decimal =
     \<lparr>repr_float = (\<lambda>x. str_int \<lfloor>x\<rfloor> @ ''.'' @ str_int (\<lfloor>x * 10\<rfloor> mod 10)),
      format_1f = (\<lambda>x. str_int \<lfloor>x\<rfloor> @ ''.'' @ str_int (\<lfloor>x * 10\<rfloor> mod 10))\<rparr>"

definition local_env :: "string \<Rightarrow> string \<Rightarrow> env" where
  "local_env a b = \<lparr>connected = False, today = ''2024-05-01'', uuid1 = a, uuid2 = b,
                    now1 = ''2024-05-01T08:00:00'', now2 = ''2024-05-01T08:00:01''\<rparr>"

definition remote_env :: env where
  "remote_env = \<lparr>connected = True, today = ''2024-05-01'', uuid1 = ''u1'', uuid2 = ''u2'',
                  now1 = ''2024-05-01T08:00:00'', now2 = ''2024-05-01T08:00:01''\<rparr>"

definition start :: "canned world" where
  "start = \<lparr>health_goals = [], food_logs = [], remote = down\<rparr>"

definition two_ids :: "goal_data \<Rightarrow> exn + string" where
  "two_ids d = (if r_goal_type d = ''daily_calories'' then Inr ''rb'' else Inr ''ra'')"

definition weight_row :: goal where
  "weight_row = \<lparr>goal_id = ''r1'', goal_type = ''weight'', target_value = PFloat 80,
                  current_value = PFloat 20, description = Some ''kg'',
                  created_at = ''2024-04-30T09:00:00'', is_active = Some True\<rparr>"

definition new_row :: goal where
  "new_row = \<lparr>goal_id = ''r1'', goal_type = ''weight'', target_value = PFloat 70,
               current_value = PFloat 0, description = Some [],
               created_at = ''2024-05-01T08:00:00'', is_active = Some True\<rparr>"

definition two_calorie_goals :: "canned world" where
  "two_calorie_goals =
     snd (add_health_goal canned_manager one_decimal (local_env ''g2'' ''c2'')
            ''weight'' 68 None (Some 2000)
            (snd (add_health_goal canned_manager one_decimal (local_env ''g1'' ''c1'')
                    ''weight'' 70 None (Some 3000) start)))"

definition one_calorie_goal :: "canned world" where
  "one_calorie_goal =
     snd (add_health_goal canned_manager one_decimal (local_env ''g1'' ''c1'')
            ''weight'' 70 None (Some 2000) start)"

definition feast_row :: food where
  "feast_row = \<lparr>food_id = ''f9'', meal_type = ''dinner'', food_item = ''feast'',
                 calories = Some 2500, date = ''2024-05-01'',
                 created_at' = ''2024-05-01T20:00:00''\<rparr>"

definition calorie_row :: goal where
  "calorie_row = \<lparr>goal_id = ''r2'', goal_type = ''daily_calories'',
                   target_value = PFloat 2000, current_value = PFloat 0,
                   description = Some ''Daily calorie intake target'',
                   created_at = ''2024-04-30T09:00:00'', is_active = Some True\<rparr>"

definition fed :: canned where
  "fed = down\<lparr>add_food_resp := Inr ''f9'', foods_resp := Inr [feast_row],
              goals_resp := Inr [calorie_row]\<rparr>"

definition mixed :: "canned world" where
  "mixed = \<lparr>health_goals = [], food_logs = [feast_row\<lparr>food_item := ''salad'', calories := Some 300\<rparr>],
             remote = fed\<rparr>"

definition no_goals :: canned where
  "no_goals = fed\<lparr>goals_resp := Inl (ClientError ''connection lost'')\<rparr>"

definition first_only :: "goal_data \<Rightarrow> exn + string" where
  "first_only d = (if r_goal_type d = ''daily_calories''
                   then Inl (ClientError ''quota exceeded'') else Inr ''r1'')"

definition paused :: goal where
  "paused = \<lparr>goal_id = ''g1'', goal_type = ''weight'', target_value = PFloat 80,
              current_value = PFloat 20, description = None,
              created_at = ''2024-04-30T09:00:00'', is_active = Some False\<rparr>"

definition history :: "canned world" where
  "history = \<lparr>health_goals = [(''g1'', paused)], food_logs = [feast_row], remote = down\<rparr>"

definition session :: "call list" where
  "session =
     [AddHealthGoal (local_env ''g2'' ''c2'') ''Steps'' 10000 None (Some 2000),
      UpdateHealthGoal (local_env [] []) ''g1'' (Some 75) (Some 30) (Some ''kg''),
      AddFoodLog (local_env ''f2'' []) ''lunch'' ''rice'' (Some 150),
      GetHealthGoals (local_env [] []),
      GetFoodLog remote_env]"

subsection \<open>A client that is a store\<close>

text \<open>
  Modelled from the spec: the remote store client \<^verbatim>\<open>supabase_manager\<close>, which is
  missing from the sources. The spec gives its methods and says of a goal that it is
  created by an add operation, is never removed, and is returned by the listing while
  it is flagged active. Of this, the property below is what a theorem about the remote
  branch may assume of a client: a goal that \<^verbatim>\<open>add_health_goal\<close> accepted as active
  is in the list that \<^verbatim>\<open>get_health_goals\<close> returns from then on, as the row of the dict that
  was given (\<open>is_row\<close>), and a goal that was listed before another is added is listed
  after.
\<close>

definition is_row :: "string \<Rightarrow> goal_data \<Rightarrow> goal \<Rightarrow> bool" where
  "is_row gid d g =
     (goal_id g = gid \<and> goal_type g = r_goal_type d
      \<and> target_value g = PFloat (r_target_value d)
      \<and> current_value g = PFloat (r_current_value d)
      \<and> description g = Some (r_description d))"

definition lists_added_goals :: "'r manager \<Rightarrow> bool" where
  "lists_added_goals M =
     (\<forall>d r gid r'. r_is_active d \<longrightarrow> sb_add_health_goal M d r = (Inr gid, r') \<longrightarrow>
        (\<exists>goals r''. sb_get_health_goals M r' = (Inr goals, r'')
           \<and> (\<exists>g. g \<in> set goals \<and> is_row gid d g)
           \<and> (\<forall>goals0 r0. sb_get_health_goals M r = (Inr goals0, r0)
                  \<longrightarrow> set goals0 \<subseteq> set goals)))"

text \<open>
  A client of this kind, for the evaluation of theorems: its state is a list of goal
  rows and a list of food rows; an added row gets the next number as its identifier.
\<close>

record table =
  goal_rows :: "goal list"
  food_rows :: "food list"

definition table_manager :: "table manager" where
  "table_manager = \<lparr>
     sb_add_health_goal = (\<lambda>d r.
        (Inr (''r'' @ str_nat (length (goal_rows r))),
         r\<lparr>goal_rows := goal_rows r @
             [\<lparr>goal_id = ''r'' @ str_nat (length (goal_rows r)), goal_type = r_goal_type d,
               target_value = PFloat (r_target_value d),
               current_value = PFloat (r_current_value d),
               description = Some (r_description d), created_at = ''2024-05-01T08:00:00'',
               is_active = Some (r_is_active d)\<rparr>]\<rparr>)),
     sb_update_health_goal = (\<lambda>i u r.
        (Inr (i \<in> set (map goal_id (goal_rows r))),
         r\<lparr>goal_rows :=
             map (\<lambda>g. if goal_id g = i
                      then g\<lparr>target_value :=
                               (case upd_target_value u of None \<Rightarrow> target_value g
                                | Some t \<Rightarrow> PFloat t),
                             current_value :=
                               (case upd_current_value u of None \<Rightarrow> current_value g
                                | Some c \<Rightarrow> PFloat c),
                             description :=
                               (case upd_description u of None \<Rightarrow> description g
                                | Some s \<Rightarrow> Some s)\<rparr>
                      else g) (goal_rows r)\<rparr>)),
     sb_get_health_goals = (\<lambda>r. (Inr (filter get_is_active (goal_rows r)), r)),
     sb_add_food_log = (\<lambda>d r.
        (Inr (''f'' @ str_nat (length (food_rows r))),
         r\<lparr>food_rows := food_rows r @
             [\<lparr>food_id = ''f'' @ str_nat (length (food_rows r)), meal_type = r_meal_type d,
               food_item = r_food_item d, calories = r_calories d, date = r_date d,
               created_at' = ''2024-05-01T08:00:00''\<rparr>]\<rparr>)),
     sb_get_food_logs = (\<lambda>t r. (Inr (filter (\<lambda>f. date f = t) (food_rows r)), r))\<rparr>"

definition salad :: food where
  "salad = \<lparr>food_id = ''f1'', meal_type = ''lunch'', food_item = ''salad'',
             calories = Some 300, date = ''2024-05-01'',
             created_at' = ''2024-05-01T12:00:00''\<rparr>"

definition shop :: "table world" where
  "shop = \<lparr>health_goals = [(''g1'', paused)], food_logs = [salad],
            remote = \<lparr>goal_rows = [weight_row], food_rows = [feast_row]\<rparr>\<rparr>"

definition bare :: "table world" where
  "bare = \<lparr>health_goals = [], food_logs = [], remote = \<lparr>goal_rows = [], food_rows = []\<rparr>\<rparr>"

section \<open>Properties\<close>

subsection \<open>Unfolding\<close>

lemmas str_defs = py_title_def py_lower_def is_upper_def is_lower_def to_upper_def to_lower_def
  upper_letters_def lower_letters_def str_int_def nl_def

lemmas tool_defs = add_health_goal_def add_health_goal_body_def update_health_goal_def
  update_health_goal_body_def get_health_goals_def get_health_goals_body_def
  add_food_log_def add_food_log_body_def get_food_log_def get_food_log_body_def catch_all_def

lemmas sample_defs = canned_manager_def down_def one_decimal_def local_env_def remote_env_def
  start_def

subsection \<open>The daily total with an entry that has no calories\<close>

text \<open>
  Claim C1. In the in-memory branch, three entries of one day are logged with calories
  100, 150 and none. The claim expects the reported total to be 250, the missing value
  counting as 0. The second call does report 250; the third stores its entry, and the
  sum over the day then adds \<^verbatim>\<open>None\<close> to an \<^verbatim>\<open>int\<close>: the call returns the text of
  the \<^verbatim>\<open>TypeError\<close> and no total. The entry stays in the log, and
  \<^verbatim>\<open>get_food_log\<close> fails on it in the same way.
\<close>

theorem add_food_log_three_entries:
  "fst (add_food_log canned_manager one_decimal (local_env ''f2'' [])
          ''lunch'' ''rice'' (Some 150)
          (snd (add_food_log canned_manager one_decimal (local_env ''f1'' [])
                  ''breakfast'' ''toast'' (Some 100) start)))
     = ''Food logged successfully! (Local Storage)'' @ nl @ nl @ ''Meal: Lunch'' @ nl
         @ ''Food: rice'' @ nl @ ''Calories: 150'' @ nl @ nl
         @ ''Today'' @ [CHR 0x27] @ ''s Total Calories: 250''
   \<and> fst (add_food_log canned_manager one_decimal (local_env ''f3'' [])
            ''snack'' ''water'' None
            (snd (add_food_log canned_manager one_decimal (local_env ''f2'' [])
                    ''lunch'' ''rice'' (Some 150)
                    (snd (add_food_log canned_manager one_decimal (local_env ''f1'' [])
                            ''breakfast'' ''toast'' (Some 100) start)))))
     = ''Error adding food log: '' @ int_plus_None
   \<and> length (food_logs (snd (add_food_log canned_manager one_decimal (local_env ''f3'' [])
            ''snack'' ''water'' None
            (snd (add_food_log canned_manager one_decimal (local_env ''f2'' [])
                    ''lunch'' ''rice'' (Some 150)
                    (snd (add_food_log canned_manager one_decimal (local_env ''f1'' [])
                            ''breakfast'' ''toast'' (Some 100) start))))))) = 3
   \<and> fst (get_food_log canned_manager one_decimal (local_env [] [])
            (snd (add_food_log canned_manager one_decimal (local_env ''f3'' [])
                    ''snack'' ''water'' None
                    (snd (add_food_log canned_manager one_decimal (local_env ''f2'' [])
                            ''lunch'' ''rice'' (Some 150)
                            (snd (add_food_log canned_manager one_decimal
                                    (local_env ''f1'' [])
                                    ''breakfast'' ''toast'' (Some 100) start)))))))
     = ''Error getting food log: '' @ int_pluseq_None"
  by (simp add: tool_defs sample_defs goal_commentary_def Let_def str_defs food_line_def)

text \<open>
  The failure does not depend on the other entries: in the in-memory branch every call
  of \<^verbatim>\<open>add_food_log\<close> without calories returns this text.
\<close>

lemma sum_calories_None:
  "calories f = None \<Longrightarrow> sum_calories acc (fs @ [f]) = Inl (TypeError int_plus_None)"
  by (induction fs arbitrary: acc) (auto split: option.splits)

lemma add_food_log_None_local:
  "\<not> connected e \<Longrightarrow>
   fst (add_food_log M F e mtype item None w) = ''Error adding food log: '' @ int_plus_None"
  by (simp add: add_food_log_def add_food_log_body_def catch_all_def Let_def sum_calories_None)

subsection \<open>An unknown goal identifier\<close>

text \<open>
  Claim C2. \<^verbatim>\<open>update_health_goal\<close> with an identifier that the active backend does not
  hold returns a not-found text and changes nothing. In the in-memory branch the
  identifier is not a key of \<^verbatim>\<open>health_goals\<close>. In the remote branch the only call made
  is the client's \<^verbatim>\<open>update_health_goal\<close>; an identifier the remote store does not hold
  is one for which the client answers \<^verbatim>\<open>False\<close> and leaves its store as it is.
\<close>

theorem update_health_goal_unknown_id:
  "(\<not> connected e \<longrightarrow> map_of (health_goals w) gid = None \<longrightarrow>
      update_health_goal M F e gid target current descr w
        = (''Health goal '' @ gid @ '' not found'', w))
   \<and> (connected e \<longrightarrow>
        sb_update_health_goal M gid
          \<lparr>upd_target_value = target, upd_current_value = current, upd_description = descr\<rparr>
          (remote w) = (Inr False, remote w) \<longrightarrow>
      update_health_goal M F e gid target current descr w
        = (''Health goal '' @ gid @ '' not found or update failed'', w))"
  by (simp add: update_health_goal_def update_health_goal_body_def catch_all_def)

theorem update_health_goal_unknown_id_witness:
  "\<not> connected (local_env [] []) \<and> map_of (health_goals start) ''g9'' = None
   \<and> update_health_goal canned_manager one_decimal (local_env [] []) ''g9'' (Some 70) None None start
       = (''Health goal g9 not found'', start)
   \<and> connected remote_env
   \<and> sb_update_health_goal canned_manager ''g9''
        \<lparr>upd_target_value = Some 70, upd_current_value = None, upd_description = None\<rparr>
        (remote (start\<lparr>remote := down\<lparr>update_resp := Inr False\<rparr>\<rparr>))
       = (Inr False, remote (start\<lparr>remote := down\<lparr>update_resp := Inr False\<rparr>\<rparr>))
   \<and> update_health_goal canned_manager one_decimal remote_env ''g9'' (Some 70) None None
        (start\<lparr>remote := down\<lparr>update_resp := Inr False\<rparr>\<rparr>)
       = (''Health goal g9 not found or update failed'',
          start\<lparr>remote := down\<lparr>update_resp := Inr False\<rparr>\<rparr>)"
  using update_health_goal_unknown_id [of "local_env [] []" start "''g9''" canned_manager
          one_decimal "Some 70" None None]
        update_health_goal_unknown_id [of remote_env
          "start\<lparr>remote := down\<lparr>update_resp := Inr False\<rparr>\<rparr>" "''g9''" canned_manager
          one_decimal "Some 70" None None]
  by (simp add: sample_defs)

subsection \<open>Calories of zero in the display\<close>

text \<open>
  Claim C10. An entry logged with calories 0 is shown without a calories line by
  \<^verbatim>\<open>add_food_log\<close> and without a \<^verbatim>\<open>(0 cal)\<close> suffix by \<^verbatim>\<open>get_food_log\<close>, and the
  claim expects an entry logged without calories to be shown in the same way. The
  entry without calories is never shown: both tools return the text of a
  \<^verbatim>\<open>TypeError\<close> as soon as the day holds it.
\<close>

theorem food_log_zero_and_absent_calories:
  "fst (add_food_log canned_manager one_decimal (local_env ''f1'' []) ''lunch'' ''water'' (Some 0) start)
     = ''Food logged successfully! (Local Storage)'' @ nl @ nl @ ''Meal: Lunch'' @ nl
         @ ''Food: water'' @ nl @ nl @ ''Today'' @ [CHR 0x27] @ ''s Total Calories: 0''
   \<and> fst (add_food_log canned_manager one_decimal (local_env ''f1'' []) ''lunch'' ''water'' None start)
     = ''Error adding food log: '' @ int_plus_None
   \<and> fst (get_food_log canned_manager one_decimal (local_env [] [])
        (snd (add_food_log canned_manager one_decimal (local_env ''f1'' []) ''lunch'' ''water'' (Some 0) start)))
     = ''Today'' @ [CHR 0x27] @ ''s Food Log (Local Storage)'' @ nl @ nl @ ''Lunch'' @ nl
         @ ''  water'' @ nl @ nl @ ''Daily Total: 0 calories''
   \<and> fst (get_food_log canned_manager one_decimal (local_env [] [])
        (snd (add_food_log canned_manager one_decimal (local_env ''f1'' []) ''lunch'' ''water'' None start)))
     = ''Error getting food log: '' @ int_pluseq_None"
  by (simp add: tool_defs sample_defs goal_commentary_def Let_def str_defs food_line_def)

subsection \<open>The second goal of \<^verbatim>\<open>add_health_goal\<close>\<close>

lemma sublist_first_of_4: "sublist x (a @ x @ b @ y)"
  by (rule sublist_appendI)

lemma sublist_last_of_4: "sublist y (a @ x @ b @ y)"
  using sublist_append_leftI [of y "a @ x @ b"] by simp
lemma add_health_goal_local_truthy:
  assumes "\<not> connected e" and "n \<noteq> 0"
  shows "add_health_goal M F e gtype target descr (Some n) w =
     ((''Health goal added successfully! (Local Storage)'' @ nl @ nl
         @ ''Goal: '' @ py_title gtype @ nl @ ''Target: '' @ repr_float F target @ nl
         @ ''Goal ID: '') @ uuid1 e @ (nl @ nl @ ''Daily Calorie Goal: ''
         @ str_int n @ '' calories'' @ nl @ ''Calorie Goal ID: '') @ uuid2 e,
      w\<lparr>health_goals :=
          AList.update (uuid2 e)
            \<lparr>goal_id = uuid2 e, goal_type = ''daily_calories'', target_value = PInt n,
             current_value = PFloat 0, description = Some ''Daily calorie intake target'',
             created_at = now2 e, is_active = None\<rparr>
            (AList.update (uuid1 e)
               \<lparr>goal_id = uuid1 e, goal_type = py_lower gtype, target_value = PFloat target,
                current_value = PFloat 0, description = descr, created_at = now1 e,
                is_active = None\<rparr>
               (health_goals w))\<rparr>)"
  using assms by (simp add: add_health_goal_def add_health_goal_body_def catch_all_def Let_def)

lemma add_health_goal_remote_truthy:
  assumes "connected e" and "n \<noteq> 0"
    and "sb_add_health_goal M
           \<lparr>r_goal_type = py_lower gtype, r_target_value = target, r_current_value = 0,
            r_description = (case descr of None \<Rightarrow> [] | Some d \<Rightarrow> d), r_is_active = True\<rparr>
           (remote w) = (Inr gid, ra)"
    and "sb_add_health_goal M
           \<lparr>r_goal_type = ''daily_calories'', r_target_value = of_int n, r_current_value = 0,
            r_description = ''Daily calorie intake target'', r_is_active = True\<rparr>
           ra = (Inr cid, rb)"
  shows "add_health_goal M F e gtype target descr (Some n) w =
     ((''Health goal added successfully!'' @ nl @ nl
         @ ''Goal: '' @ py_title gtype @ nl @ ''Target: '' @ repr_float F target @ nl
         @ ''Goal ID: '') @ gid @ (nl @ nl @ ''Daily Calorie Goal: ''
         @ str_int n @ '' calories'' @ nl @ ''Calorie Goal ID: '') @ cid,
      w\<lparr>remote := rb\<rparr>)"
  using assms by (simp add: add_health_goal_def add_health_goal_body_def catch_all_def Let_def)

text \<open>
  Claim C3, as stated: for every value supplied as \<^verbatim>\<open>daily_calorie_goal\<close> a second
  goal of type \<^verbatim>\<open>"daily_calories"\<close> is created and the text holds both identifiers.
  The test is \<^verbatim>\<open>if daily_calorie_goal:\<close>, which the supplied value 0 does not pass:
  one goal is stored, and the text ends with its identifier.
\<close>

theorem add_health_goal_zero_calorie_goal:
  "add_health_goal canned_manager one_decimal (local_env ''g1'' ''g2'') ''weight'' 70 None (Some 0) start
     = (''Health goal added successfully! (Local Storage)'' @ nl @ nl @ ''Goal: Weight'' @ nl
          @ ''Target: 70.0'' @ nl @ ''Goal ID: g1'',
        start\<lparr>health_goals :=
          [(''g1'', \<lparr>goal_id = ''g1'', goal_type = ''weight'', target_value = PFloat 70,
                     current_value = PFloat 0, description = None,
                     created_at = ''2024-05-01T08:00:00'', is_active = None\<rparr>)]\<rparr>)"
  by (simp add: tool_defs sample_defs Let_def str_defs)

text \<open>
  Claim C3, amended: for every supplied \<^verbatim>\<open>daily_calorie_goal\<close> other than 0. In the
  in-memory branch the dict then holds the goal under the first identifier and a goal
  of type \<^verbatim>\<open>"daily_calories"\<close>, with the supplied target, under the second one, and
  both identifiers occur in the text. In the remote branch, when the client accepts
  both dicts, the second one has the type \<^verbatim>\<open>"daily_calories"\<close>, the remote store is
  what the client made of it, and both identifiers it returned occur in the text.
\<close>

theorem add_health_goal_second_goal:
  assumes "n \<noteq> 0"
  shows "(\<not> connected e \<longrightarrow> uuid1 e \<noteq> uuid2 e \<longrightarrow>
           map_of (health_goals (snd (add_health_goal M F e gtype target descr (Some n) w)))
             (uuid1 e)
             = Some \<lparr>goal_id = uuid1 e, goal_type = py_lower gtype,
                     target_value = PFloat target, current_value = PFloat 0,
                     description = descr, created_at = now1 e, is_active = None\<rparr>
           \<and> map_of (health_goals (snd (add_health_goal M F e gtype target descr (Some n) w)))
               (uuid2 e)
             = Some \<lparr>goal_id = uuid2 e, goal_type = ''daily_calories'',
                     target_value = PInt n, current_value = PFloat 0,
                     description = Some ''Daily calorie intake target'',
                     created_at = now2 e, is_active = None\<rparr>
           \<and> sublist (uuid1 e) (fst (add_health_goal M F e gtype target descr (Some n) w))
           \<and> sublist (uuid2 e) (fst (add_health_goal M F e gtype target descr (Some n) w)))
       \<and> (connected e \<longrightarrow>
            sb_add_health_goal M
              \<lparr>r_goal_type = py_lower gtype, r_target_value = target, r_current_value = 0,
               r_description = (case descr of None \<Rightarrow> [] | Some d \<Rightarrow> d),
               r_is_active = True\<rparr>
              (remote w) = (Inr gid, ra) \<longrightarrow>
            sb_add_health_goal M
              \<lparr>r_goal_type = ''daily_calories'', r_target_value = of_int n,
               r_current_value = 0, r_description = ''Daily calorie intake target'',
               r_is_active = True\<rparr>
              ra = (Inr cid, rb) \<longrightarrow>
            snd (add_health_goal M F e gtype target descr (Some n) w) = w\<lparr>remote := rb\<rparr>
            \<and> sublist gid (fst (add_health_goal M F e gtype target descr (Some n) w))
            \<and> sublist cid (fst (add_health_goal M F e gtype target descr (Some n) w)))"
proof (intro conjI impI)
  assume loc: "\<not> connected e" and ne: "uuid1 e \<noteq> uuid2 e"
  note eq = add_health_goal_local_truthy [OF loc assms, of M F gtype target descr w]
  show "map_of (health_goals (snd (add_health_goal M F e gtype target descr (Some n) w)))
          (uuid1 e)
        = Some \<lparr>goal_id = uuid1 e, goal_type = py_lower gtype,
                target_value = PFloat target, current_value = PFloat 0,
                description = descr, created_at = now1 e, is_active = None\<rparr>"
    using ne by (simp add: eq update_conv')
  show "map_of (health_goals (snd (add_health_goal M F e gtype target descr (Some n) w)))
          (uuid2 e)
        = Some \<lparr>goal_id = uuid2 e, goal_type = ''daily_calories'',
                target_value = PInt n, current_value = PFloat 0,
                description = Some ''Daily calorie intake target'',
                created_at = now2 e, is_active = None\<rparr>"
    by (simp add: eq update_conv')
  show "sublist (uuid1 e) (fst (add_health_goal M F e gtype target descr (Some n) w))"
    unfolding eq fst_conv by (rule sublist_first_of_4)
  show "sublist (uuid2 e) (fst (add_health_goal M F e gtype target descr (Some n) w))"
    unfolding eq fst_conv by (rule sublist_last_of_4)
next
  assume rem: "connected e"
    and a1: "sb_add_health_goal M
              \<lparr>r_goal_type = py_lower gtype, r_target_value = target, r_current_value = 0,
               r_description = (case descr of None \<Rightarrow> [] | Some d \<Rightarrow> d),
               r_is_active = True\<rparr>
              (remote w) = (Inr gid, ra)"
    and a2: "sb_add_health_goal M
              \<lparr>r_goal_type = ''daily_calories'', r_target_value = of_int n,
               r_current_value = 0, r_description = ''Daily calorie intake target'',
               r_is_active = True\<rparr>
              ra = (Inr cid, rb)"
  note eq = add_health_goal_remote_truthy [OF rem assms a1 a2, of F]
  show "snd (add_health_goal M F e gtype target descr (Some n) w) = w\<lparr>remote := rb\<rparr>"
    by (simp add: eq)
  show "sublist gid (fst (add_health_goal M F e gtype target descr (Some n) w))"
    unfolding eq fst_conv by (rule sublist_first_of_4)
  show "sublist cid (fst (add_health_goal M F e gtype target descr (Some n) w))"
    unfolding eq fst_conv by (rule sublist_last_of_4)
qed

theorem add_health_goal_second_goal_witness:
  "(2000::int) \<noteq> 0
   \<and> \<not> connected (local_env ''g1'' ''g2'')
   \<and> uuid1 (local_env ''g1'' ''g2'') \<noteq> uuid2 (local_env ''g1'' ''g2'')
   \<and> map_of (health_goals (snd (add_health_goal canned_manager one_decimal
         (local_env ''g1'' ''g2'') ''Weight'' 70 None (Some 2000) start))) ''g2''
       = Some \<lparr>goal_id = ''g2'', goal_type = ''daily_calories'',
                     target_value = PInt 2000, current_value = PFloat 0,
                     description = Some ''Daily calorie intake target'',
                     created_at = ''2024-05-01T08:00:01'', is_active = None\<rparr>
   \<and> sublist ''g1'' (fst (add_health_goal canned_manager one_decimal
         (local_env ''g1'' ''g2'') ''Weight'' 70 None (Some 2000) start))
   \<and> sublist ''g2'' (fst (add_health_goal canned_manager one_decimal
         (local_env ''g1'' ''g2'') ''Weight'' 70 None (Some 2000) start))
   \<and> connected remote_env
   \<and> sb_add_health_goal canned_manager
        \<lparr>r_goal_type = py_lower ''Weight'', r_target_value = 70, r_current_value = 0,
         r_description = [], r_is_active = True\<rparr>
        (down\<lparr>add_goal_resp := two_ids\<rparr>) = (Inr ''ra'', down\<lparr>add_goal_resp := two_ids\<rparr>)
   \<and> sb_add_health_goal canned_manager
        \<lparr>r_goal_type = ''daily_calories'', r_target_value = 2000, r_current_value = 0,
         r_description = ''Daily calorie intake target'', r_is_active = True\<rparr>
        (down\<lparr>add_goal_resp := two_ids\<rparr>) = (Inr ''rb'', down\<lparr>add_goal_resp := two_ids\<rparr>)
   \<and> sublist ''ra'' (fst (add_health_goal canned_manager one_decimal remote_env
         ''Weight'' 70 None (Some 2000) (start\<lparr>remote := down\<lparr>add_goal_resp := two_ids\<rparr>\<rparr>)))
   \<and> sublist ''rb'' (fst (add_health_goal canned_manager one_decimal remote_env
         ''Weight'' 70 None (Some 2000) (start\<lparr>remote := down\<lparr>add_goal_resp := two_ids\<rparr>\<rparr>)))"
  using add_health_goal_second_goal [where n = 2000 and e = "local_env ''g1'' ''g2''"
          and M = canned_manager and F = one_decimal and gtype = "''Weight''" and target = 70
          and descr = None and w = start]
        add_health_goal_second_goal [where n = 2000 and e = remote_env
          and M = canned_manager and F = one_decimal and gtype = "''Weight''" and target = 70
          and descr = None and w = "start\<lparr>remote := down\<lparr>add_goal_resp := two_ids\<rparr>\<rparr>"
          and gid = "''ra''" and ra = "down\<lparr>add_goal_resp := two_ids\<rparr>"
          and cid = "''rb''" and rb = "down\<lparr>add_goal_resp := two_ids\<rparr>"]
  by (simp add: sample_defs two_ids_def str_defs)

subsection \<open>The progress shown for a goal\<close>

lemma progress_eq:
  "progress g = Inr (if 0 < py_float (target_value g)
                     then py_float (current_value g) / py_float (target_value g) * 100
                     else 0)"
  by (simp add: progress_def py_truediv_def)

lemma goals_loop_eq:
  "goals_loop F gs acc =
     Inr (acc @ concat (map (\<lambda>g. goal_lines F g
            (if 0 < py_float (target_value g)
             then py_float (current_value g) / py_float (target_value g) * 100
             else 0)) gs))"
  by (induction gs arbitrary: acc) (simp_all add: progress_eq)

text \<open>
  Claim C5, as stated: for every goal listed, the progress shown is
  \<^verbatim>\<open>current_value / target_value * 100\<close>, and 0 when the target is 0. The guard of the
  code is \<^verbatim>\<open>target_value > 0\<close>: a goal with target -10 and current value 5 is listed
  with progress 0, where the quotient is -50.
\<close>

theorem listed_progress_negative_target:
  "progress \<lparr>goal_id = ''g1'', goal_type = ''weight_change'', target_value = PFloat (- 10),
             current_value = PFloat 5, description = None,
             created_at = ''2024-05-01T08:00:00'', is_active = None\<rparr> = Inr 0
   \<and> py_float (PFloat 5) / py_float (PFloat (- 10)) * 100 = - 50
   \<and> get_health_goals canned_manager one_decimal (local_env [] [])
        (snd (update_health_goal canned_manager one_decimal (local_env [] [])
                ''g1'' None (Some 5) None
                (snd (add_health_goal canned_manager one_decimal (local_env ''g1'' [])
                        ''weight_change'' (- 10) None None start))))
     = (''Active Health Goals (Local Storage)'' @ nl @ nl @ ''Weight_Change'' @ nl
          @ ''  Target: -10.0'' @ nl @ ''  Current: 5.0'' @ nl @ ''  Progress: 0.0%'' @ nl
          @ ''  Description: None'' @ nl @ ''  Goal ID: g1'' @ nl @ nl,
        start\<lparr>health_goals :=
          [(''g1'', \<lparr>goal_id = ''g1'', goal_type = ''weight_change'',
                     target_value = PFloat (- 10), current_value = PFloat 5,
                     description = None, created_at = ''2024-05-01T08:00:00'',
                     is_active = None\<rparr>)]\<rparr>)"
  by (simp add: tool_defs sample_defs Let_def str_defs progress_def py_truediv_def
      goal_lines_def get_is_active_def)

text \<open>
  Claim C5, amended: for every goal listed by \<^verbatim>\<open>get_health_goals\<close>, by either
  branch, the progress shown is \<^verbatim>\<open>current_value / target_value * 100\<close> when the target
  is positive and 0 when it is zero or negative. The computation of the progress never
  raises: the division is reached with a positive divisor only, and the listing is
  never the text of an error.
\<close>

theorem listed_progress:
  "progress g = Inr (if 0 < py_float (target_value g)
                     then py_float (current_value g) / py_float (target_value g) * 100
                     else 0)
   \<and> (\<not> connected e \<longrightarrow>
        get_health_goals M F e w =
          (if filter get_is_active (map snd (health_goals w)) = []
           then ''No active health goals found. Add a goal to get started! (Local Storage)''
           else ''Active Health Goals (Local Storage)'' @ nl @ nl
                @ concat (map (\<lambda>g. goal_lines F g
                     (if 0 < py_float (target_value g)
                      then py_float (current_value g) / py_float (target_value g) * 100
                      else 0))
                   (filter get_is_active (map snd (health_goals w)))),
           w))
   \<and> (connected e \<longrightarrow> sb_get_health_goals M (remote w) = (Inr goals, ra) \<longrightarrow>
        get_health_goals M F e w =
          (if goals = []
           then ''No active health goals found. Add a goal to get started!''
           else ''Active Health Goals'' @ nl @ nl
                @ concat (map (\<lambda>g. goal_lines F g
                     (if 0 < py_float (target_value g)
                      then py_float (current_value g) / py_float (target_value g) * 100
                      else 0))
                   goals),
           w\<lparr>remote := ra\<rparr>))"
  by (simp add: progress_eq get_health_goals_def get_health_goals_body_def catch_all_def
      Let_def goals_loop_eq)

theorem listed_progress_witness:
  "progress weight_row = Inr 25
   \<and> \<not> connected (local_env [] [])
   \<and> get_health_goals canned_manager one_decimal (local_env [] [])
        (start\<lparr>health_goals := [(''r1'', weight_row)]\<rparr>)
      = (''Active Health Goals (Local Storage)'' @ nl @ nl @ goal_lines one_decimal weight_row 25,
         start\<lparr>health_goals := [(''r1'', weight_row)]\<rparr>)
   \<and> connected remote_env
   \<and> sb_get_health_goals canned_manager (down\<lparr>goals_resp := Inr [weight_row]\<rparr>)
      = (Inr [weight_row], down\<lparr>goals_resp := Inr [weight_row]\<rparr>)
   \<and> get_health_goals canned_manager one_decimal remote_env
        (start\<lparr>remote := down\<lparr>goals_resp := Inr [weight_row]\<rparr>\<rparr>)
      = (''Active Health Goals'' @ nl @ nl @ goal_lines one_decimal weight_row 25,
         start\<lparr>remote := down\<lparr>goals_resp := Inr [weight_row]\<rparr>\<rparr>)"
  using listed_progress [where g = weight_row and e = "local_env [] []" and M = canned_manager
          and F = one_decimal and w = "start\<lparr>health_goals := [(''r1'', weight_row)]\<rparr>"]
        listed_progress [where g = weight_row and e = remote_env and M = canned_manager
          and F = one_decimal and w = "start\<lparr>remote := down\<lparr>goals_resp := Inr [weight_row]\<rparr>\<rparr>"
          and goals = "[weight_row]" and ra = "down\<lparr>goals_resp := Inr [weight_row]\<rparr>"]
  by (simp add: sample_defs weight_row_def get_is_active_def)

subsection \<open>A new goal in the listing\<close>

lemma sublist_concat_map:
  assumes "x \<in> set xs"
  shows "sublist (f x) (acc @ concat (map f xs))"
proof -
  from assms obtain ys zs where "xs = ys @ x # zs"
    by (auto dest: split_list)
  then have "acc @ concat (map f xs) = (acc @ concat (map f ys)) @ f x @ concat (map f zs)"
    by simp
  then show ?thesis
    by (simp only: sublist_appendI)
qed

lemma update_mem_same: "(k, v) \<in> set (AList.update k v al)"
  by (induction al) auto

lemma update_mem_other: "k \<noteq> k' \<Longrightarrow> (k, v) \<in> set al \<Longrightarrow> (k, v) \<in> set (AList.update k' v' al)"
  by (induction al) auto

lemma listed_local:
  assumes "\<not> connected e" and "(k, g) \<in> set (health_goals w)" and "is_active g = None"
    and "py_float (current_value g) = 0"
  shows "sublist (goal_lines F g 0) (fst (get_health_goals M F e w))"
proof -
  define active where "active = filter get_is_active (map snd (health_goals w))"
  define f where "f = (\<lambda>g. goal_lines F g
              (if 0 < py_float (target_value g)
               then py_float (current_value g) / py_float (target_value g) * 100 else 0))"
  define hdr where "hdr = ''Active Health Goals (Local Storage)'' @ nl @ nl"
  from assms(2,3) have mem: "g \<in> set active"
    by (force simp: get_is_active_def active_def)
  then have ne: "active \<noteq> []"
    by (cases active) simp_all
  have eq: "fst (get_health_goals M F e w) = hdr @ concat (map f active)"
    using assms(1) ne
    by (simp add: get_health_goals_def get_health_goals_body_def catch_all_def Let_def
        goals_loop_eq active_def f_def hdr_def)
  have fg: "f g = goal_lines F g 0"
    using assms(4) by (simp add: f_def)
  have "sublist (f g) (hdr @ concat (map f active))"
    using mem by (rule sublist_concat_map)
  then show ?thesis
    by (simp only: eq fg)
qed

lemma listed_remote:
  assumes "connected e" and "sb_get_health_goals M (remote w) = (Inr goals, rb)"
    and "g \<in> set goals" and "py_float (current_value g) = 0"
  shows "sublist (goal_lines F g 0) (fst (get_health_goals M F e w))"
proof -
  define f where "f = (\<lambda>g. goal_lines F g
              (if 0 < py_float (target_value g)
               then py_float (current_value g) / py_float (target_value g) * 100 else 0))"
  define hdr where "hdr = ''Active Health Goals'' @ nl @ nl"
  from assms(3) have ne: "goals \<noteq> []"
    by (cases goals) simp_all
  have eq: "fst (get_health_goals M F e w) = hdr @ concat (map f goals)"
    using assms(1,2) ne
    by (simp add: get_health_goals_def get_health_goals_body_def catch_all_def Let_def
        goals_loop_eq f_def hdr_def)
  have fg: "f g = goal_lines F g 0"
    using assms(4) by (simp add: f_def)
  have "sublist (f g) (hdr @ concat (map f goals))"
    using assms(3) by (rule sublist_concat_map)
  then show ?thesis
    by (simp only: eq fg)
qed

lemma add_health_goal_local_store:
  assumes "\<not> connected e"
  shows "health_goals (snd (add_health_goal M F e gtype target descr dcg w)) =
     (if truthy dcg
      then AList.update (uuid2 e)
             \<lparr>goal_id = uuid2 e, goal_type = ''daily_calories'',
              target_value = PInt (the dcg), current_value = PFloat 0,
              description = Some ''Daily calorie intake target'',
              created_at = now2 e, is_active = None\<rparr>
             (AList.update (uuid1 e)
                \<lparr>goal_id = uuid1 e, goal_type = py_lower gtype, target_value = PFloat target,
                 current_value = PFloat 0, description = descr, created_at = now1 e,
                 is_active = None\<rparr>
                (health_goals w))
      else AList.update (uuid1 e)
             \<lparr>goal_id = uuid1 e, goal_type = py_lower gtype, target_value = PFloat target,
              current_value = PFloat 0, description = descr, created_at = now1 e,
              is_active = None\<rparr>
             (health_goals w))"
  using assms by (simp add: add_health_goal_def add_health_goal_body_def catch_all_def Let_def)

lemma add_health_goal_remote_store:
  assumes "connected e"
  shows "remote (snd (add_health_goal M F e gtype target descr dcg w)) =
     (case sb_add_health_goal M
             \<lparr>r_goal_type = py_lower gtype, r_target_value = target, r_current_value = 0,
              r_description = (case descr of None \<Rightarrow> [] | Some d \<Rightarrow> d),
              r_is_active = True\<rparr>
             (remote w) of
        (Inl x, ra) \<Rightarrow> ra
      | (Inr gid, ra) \<Rightarrow>
          if truthy dcg
          then snd (sb_add_health_goal M
                 \<lparr>r_goal_type = ''daily_calories'', r_target_value = of_int (the dcg),
                  r_current_value = 0, r_description = ''Daily calorie intake target'',
                  r_is_active = True\<rparr> ra)
          else ra)"
  using assms
  by (simp add: add_health_goal_def add_health_goal_body_def catch_all_def Let_def
      split: prod.splits sum.splits)

lemma table_add:
  "sb_add_health_goal table_manager d r =
     (Inr (''r'' @ str_nat (length (goal_rows r))),
      r\<lparr>goal_rows := goal_rows r @
          [\<lparr>goal_id = ''r'' @ str_nat (length (goal_rows r)), goal_type = r_goal_type d,
            target_value = PFloat (r_target_value d),
            current_value = PFloat (r_current_value d),
            description = Some (r_description d), created_at = ''2024-05-01T08:00:00'',
            is_active = Some (r_is_active d)\<rparr>]\<rparr>)"
  by (simp add: table_manager_def del: str_nat.simps)

lemma table_get:
  "sb_get_health_goals table_manager r = (Inr (filter get_is_active (goal_rows r)), r)"
  by (simp add: table_manager_def)

lemma table_lists_added_goals: "lists_added_goals table_manager"
  unfolding lists_added_goals_def
proof (intro allI impI)
  fix d r gid r'
  assume act: "r_is_active d"
    and add: "sb_add_health_goal table_manager d r = (Inr gid, r')"
  define g where "g = \<lparr>goal_id = gid, goal_type = r_goal_type d,
            target_value = PFloat (r_target_value d),
            current_value = PFloat (r_current_value d),
            description = Some (r_description d), created_at = ''2024-05-01T08:00:00'',
            is_active = Some (r_is_active d)\<rparr>"
  from add have eq: "(Inr (''r'' @ str_nat (length (goal_rows r))),
         r\<lparr>goal_rows := goal_rows r @
          [\<lparr>goal_id = ''r'' @ str_nat (length (goal_rows r)), goal_type = r_goal_type d,
            target_value = PFloat (r_target_value d),
            current_value = PFloat (r_current_value d),
            description = Some (r_description d), created_at = ''2024-05-01T08:00:00'',
            is_active = Some (r_is_active d)\<rparr>]\<rparr>) = (Inr gid :: exn + string, r')"
    by (simp only: table_add)
  from eq have gid: "gid = ''r'' @ str_nat (length (goal_rows r))"
    by blast
  from eq have "r' = r\<lparr>goal_rows := goal_rows r @
          [\<lparr>goal_id = ''r'' @ str_nat (length (goal_rows r)), goal_type = r_goal_type d,
            target_value = PFloat (r_target_value d),
            current_value = PFloat (r_current_value d),
            description = Some (r_description d), created_at = ''2024-05-01T08:00:00'',
            is_active = Some (r_is_active d)\<rparr>]\<rparr>"
    by blast
  then have r': "r' = r\<lparr>goal_rows := goal_rows r @ [g]\<rparr>"
    by (simp only: g_def gid)
  have rows: "goal_rows r' = goal_rows r @ [g]"
    by (simp add: r')
  have "sb_get_health_goals table_manager r' = (Inr (filter get_is_active (goal_rows r')), r')"
    by (rule table_get)
  moreover have "g \<in> set (filter get_is_active (goal_rows r'))"
    using act by (simp add: rows g_def get_is_active_def)
  moreover have "is_row gid d g"
    by (simp add: is_row_def g_def)
  moreover have "\<forall>goals0 r0. sb_get_health_goals table_manager r = (Inr goals0, r0)
                  \<longrightarrow> set goals0 \<subseteq> set (filter get_is_active (goal_rows r'))"
    by (auto simp only: table_get rows prod.inject sum.inject set_filter set_append)
  ultimately show "\<exists>goals r''. sb_get_health_goals table_manager r' = (Inr goals, r'')
           \<and> (\<exists>g. g \<in> set goals \<and> is_row gid d g)
           \<and> (\<forall>goals0 r0. sb_get_health_goals table_manager r = (Inr goals0, r0)
                  \<longrightarrow> set goals0 \<subseteq> set goals)"
    by blast
qed


lemma goal_lines_new:
  assumes "goal_type g = py_lower gtype" and "target_value g = PFloat target"
    and "current_value g = PFloat 0"
  shows "goal_lines F g 0 =
     py_title (py_lower gtype) @ nl
     @ ''  Target: '' @ repr_float F target @ nl
     @ ''  Current: '' @ repr_float F 0 @ nl
     @ ''  Progress: '' @ format_1f F 0 @ ''%'' @ nl
     @ ''  Description: '' @ (case description g of None \<Rightarrow> ''None'' | Some d \<Rightarrow> d) @ nl
     @ ''  Goal ID: '' @ goal_id g @ nl @ nl"
  using assms by (simp add: goal_lines_def)

lemma lists_added_goalsD:
  assumes "lists_added_goals M" and "r_is_active d"
    and "sb_add_health_goal M d r = (Inr gid, r')"
  shows "\<exists>goals r''. sb_get_health_goals M r' = (Inr goals, r'')
           \<and> (\<exists>g. g \<in> set goals \<and> is_row gid d g)
           \<and> (\<forall>goals0 r0. sb_get_health_goals M r = (Inr goals0, r0)
                  \<longrightarrow> set goals0 \<subseteq> set goals)"
  using assms unfolding lists_added_goals_def by blast

lemma listed_after_remote_add:
  assumes con: "connected e" and con': "connected e'" and store: "lists_added_goals M"
    and a1: "sb_add_health_goal M
           \<lparr>r_goal_type = py_lower gtype, r_target_value = target, r_current_value = 0,
            r_description = (case descr of None \<Rightarrow> [] | Some d \<Rightarrow> d), r_is_active = True\<rparr>
           (remote w) = (Inr gid, ra)"
    and a2: "if truthy dcg
         then sb_add_health_goal M
                \<lparr>r_goal_type = ''daily_calories'', r_target_value = of_int (the dcg),
                 r_current_value = 0, r_description = ''Daily calorie intake target'',
                 r_is_active = True\<rparr> ra = (Inr cid, rb)
         else True"
  shows "\<exists>g goals rc.
           sb_get_health_goals M (remote (snd (add_health_goal M F e gtype target descr dcg w)))
             = (Inr goals, rc)
           \<and> g \<in> set goals
           \<and> is_row gid
               \<lparr>r_goal_type = py_lower gtype, r_target_value = target, r_current_value = 0,
                r_description = (case descr of None \<Rightarrow> [] | Some d \<Rightarrow> d),
                r_is_active = True\<rparr> g"
proof -
  let ?d = "\<lparr>r_goal_type = py_lower gtype, r_target_value = target, r_current_value = 0,
             r_description = (case descr of None \<Rightarrow> [] | Some d \<Rightarrow> d), r_is_active = True\<rparr>"
  have "r_is_active ?d"
    by simp
  from lists_added_goalsD [OF store this a1] obtain goals ra' g where
    l1: "sb_get_health_goals M ra = (Inr goals, ra')" and g: "g \<in> set goals" "is_row gid ?d g"
    by blast
  show ?thesis
  proof (cases "truthy dcg")
    case False
    then have "remote (snd (add_health_goal M F e gtype target descr dcg w)) = ra"
      using a1 by (simp add: add_health_goal_remote_store [OF con])
    with l1 g show ?thesis
      by auto
  next
    case True
    let ?c = "\<lparr>r_goal_type = ''daily_calories'', r_target_value = of_int (the dcg),
               r_current_value = 0, r_description = ''Daily calorie intake target'',
               r_is_active = True\<rparr>"
    from True a2 have a2': "sb_add_health_goal M ?c ra = (Inr cid, rb)"
      by simp
    have "r_is_active ?c"
      by simp
    from lists_added_goalsD [OF store this a2'] obtain goals2 rb' where
      l2: "sb_get_health_goals M rb = (Inr goals2, rb')"
      and sub: "\<forall>goals0 r0. sb_get_health_goals M ra = (Inr goals0, r0)
                  \<longrightarrow> set goals0 \<subseteq> set goals2"
      by blast
    from sub l1 g(1) have "g \<in> set goals2"
      by blast
    moreover have "remote (snd (add_health_goal M F e gtype target descr dcg w)) = rb"
      using a1 a2' True by (simp add: add_health_goal_remote_store [OF con])
    ultimately show ?thesis
      using l2 g(2) by auto
  qed
qed

text \<open>
  Claim C6. \<^verbatim>\<open>add_health_goal\<close> followed by \<^verbatim>\<open>get_health_goals\<close> on the same backend
  shows the new goal with current value 0 and progress 0.
  \<^item> In-memory branch, for all arguments: the goal is stored under its identifier with
    current value 0, and the listing returned after the call contains the six lines of
    the goal as they are written out below: the title of its type, its target, the
    line \<^verbatim>\<open>Current:\<close> with the float 0, the line \<^verbatim>\<open>Progress:\<close> with 0 in the format
    \<^verbatim>\<open>.1f\<close> and the percent sign, its description and its identifier. The two
    identifiers drawn in the call are taken to differ when a calorie goal is stored too.
  \<^item> Remote branch, for every client that lists the goals it accepted
    (\<open>lists_added_goals\<close>), when the client accepts the dicts of the call: the listing
    returned after the call contains the same six lines, with the identifier that the
    client returned. The current value in them is the one of the dict that the tool
    handed to the client.
\<close>

theorem add_then_get_shows_new_goal:
  "(\<not> connected e \<longrightarrow> \<not> connected e' \<longrightarrow> (if truthy dcg then uuid1 e \<noteq> uuid2 e else True) \<longrightarrow>
      map_of (health_goals (snd (add_health_goal M F e gtype target descr dcg w))) (uuid1 e)
        = Some \<lparr>goal_id = uuid1 e, goal_type = py_lower gtype, target_value = PFloat target,
                current_value = PFloat 0, description = descr, created_at = now1 e,
                is_active = None\<rparr>
      \<and> sublist
          (py_title (py_lower gtype) @ nl
           @ ''  Target: '' @ repr_float F target @ nl
           @ ''  Current: '' @ repr_float F 0 @ nl
           @ ''  Progress: '' @ format_1f F 0 @ ''%'' @ nl
           @ ''  Description: '' @ (case descr of None \<Rightarrow> ''None'' | Some d \<Rightarrow> d) @ nl
           @ ''  Goal ID: '' @ uuid1 e @ nl @ nl)
          (fst (get_health_goals M F e'
                  (snd (add_health_goal M F e gtype target descr dcg w)))))
   \<and> (connected e \<longrightarrow> connected e' \<longrightarrow> lists_added_goals M \<longrightarrow>
        sb_add_health_goal M
          \<lparr>r_goal_type = py_lower gtype, r_target_value = target, r_current_value = 0,
           r_description = (case descr of None \<Rightarrow> [] | Some d \<Rightarrow> d), r_is_active = True\<rparr>
          (remote w) = (Inr gid, ra) \<longrightarrow>
        (if truthy dcg
         then sb_add_health_goal M
                \<lparr>r_goal_type = ''daily_calories'', r_target_value = of_int (the dcg),
                 r_current_value = 0, r_description = ''Daily calorie intake target'',
                 r_is_active = True\<rparr> ra = (Inr cid, rb)
         else True) \<longrightarrow>
        sublist
          (py_title (py_lower gtype) @ nl
           @ ''  Target: '' @ repr_float F target @ nl
           @ ''  Current: '' @ repr_float F 0 @ nl
           @ ''  Progress: '' @ format_1f F 0 @ ''%'' @ nl
           @ ''  Description: '' @ (case descr of None \<Rightarrow> [] | Some d \<Rightarrow> d) @ nl
           @ ''  Goal ID: '' @ gid @ nl @ nl)
          (fst (get_health_goals M F e'
                  (snd (add_health_goal M F e gtype target descr dcg w)))))"
proof (intro conjI impI)
  let ?g = "\<lparr>goal_id = uuid1 e, goal_type = py_lower gtype, target_value = PFloat target,
             current_value = PFloat 0, description = descr, created_at = now1 e,
             is_active = None\<rparr>"
  let ?w = "snd (add_health_goal M F e gtype target descr dcg w)"
  assume loc: "\<not> connected e" and loc': "\<not> connected e'"
    and ne: "if truthy dcg then uuid1 e \<noteq> uuid2 e else True"
  note st = add_health_goal_local_store [OF loc, of M F gtype target descr dcg w]
  show "map_of (health_goals ?w) (uuid1 e) = Some ?g"
    using ne by (simp add: st update_conv')
  have "(uuid1 e, ?g) \<in> set (health_goals ?w)"
    using ne by (simp add: st update_mem_same update_mem_other)
  then have "sublist (goal_lines F ?g 0) (fst (get_health_goals M F e' ?w))"
    by (rule listed_local [OF loc']) simp_all
  moreover have "goal_lines F ?g 0 =
           py_title (py_lower gtype) @ nl
           @ ''  Target: '' @ repr_float F target @ nl
           @ ''  Current: '' @ repr_float F 0 @ nl
           @ ''  Progress: '' @ format_1f F 0 @ ''%'' @ nl
           @ ''  Description: '' @ (case descr of None \<Rightarrow> ''None'' | Some d \<Rightarrow> d) @ nl
           @ ''  Goal ID: '' @ uuid1 e @ nl @ nl"
    using goal_lines_new [of ?g gtype target F] by simp
  ultimately show "sublist
          (py_title (py_lower gtype) @ nl
           @ ''  Target: '' @ repr_float F target @ nl
           @ ''  Current: '' @ repr_float F 0 @ nl
           @ ''  Progress: '' @ format_1f F 0 @ ''%'' @ nl
           @ ''  Description: '' @ (case descr of None \<Rightarrow> ''None'' | Some d \<Rightarrow> d) @ nl
           @ ''  Goal ID: '' @ uuid1 e @ nl @ nl)
          (fst (get_health_goals M F e' ?w))"
    by (simp only:)
next
  let ?w = "snd (add_health_goal M F e gtype target descr dcg w)"
  let ?d = "\<lparr>r_goal_type = py_lower gtype, r_target_value = target, r_current_value = 0,
             r_description = (case descr of None \<Rightarrow> [] | Some d \<Rightarrow> d), r_is_active = True\<rparr>"
  assume con: "connected e" and con': "connected e'" and store: "lists_added_goals M"
    and a1: "sb_add_health_goal M ?d (remote w) = (Inr gid, ra)"
    and a2: "if truthy dcg
         then sb_add_health_goal M
                \<lparr>r_goal_type = ''daily_calories'', r_target_value = of_int (the dcg),
                 r_current_value = 0, r_description = ''Daily calorie intake target'',
                 r_is_active = True\<rparr> ra = (Inr cid, rb)
         else True"
  from listed_after_remote_add [OF con con' store a1 a2, of F] obtain g goals rc where
    l: "sb_get_health_goals M (remote ?w) = (Inr goals, rc)" and g: "g \<in> set goals"
    and row: "is_row gid ?d g"
    by blast
  from row have f: "goal_id g = gid" "goal_type g = py_lower gtype"
    "target_value g = PFloat target" "current_value g = PFloat 0"
    "description g = Some (case descr of None \<Rightarrow> [] | Some d \<Rightarrow> d)"
    by (simp_all add: is_row_def)
  have "sublist (goal_lines F g 0) (fst (get_health_goals M F e' ?w))"
    using con' l g by (rule listed_remote) (simp add: f)
  moreover have "goal_lines F g 0 =
           py_title (py_lower gtype) @ nl
           @ ''  Target: '' @ repr_float F target @ nl
           @ ''  Current: '' @ repr_float F 0 @ nl
           @ ''  Progress: '' @ format_1f F 0 @ ''%'' @ nl
           @ ''  Description: '' @ (case descr of None \<Rightarrow> [] | Some d \<Rightarrow> d) @ nl
           @ ''  Goal ID: '' @ gid @ nl @ nl"
    using goal_lines_new [OF f(2,3,4), of F] by (simp add: f)
  ultimately show "sublist
          (py_title (py_lower gtype) @ nl
           @ ''  Target: '' @ repr_float F target @ nl
           @ ''  Current: '' @ repr_float F 0 @ nl
           @ ''  Progress: '' @ format_1f F 0 @ ''%'' @ nl
           @ ''  Description: '' @ (case descr of None \<Rightarrow> [] | Some d \<Rightarrow> d) @ nl
           @ ''  Goal ID: '' @ gid @ nl @ nl)
          (fst (get_health_goals M F e' ?w))"
    by (simp only:)
qed

theorem add_then_get_shows_new_goal_witness:
  "\<not> connected (local_env ''g1'' ''g2'')
   \<and> uuid1 (local_env ''g1'' ''g2'') \<noteq> uuid2 (local_env ''g1'' ''g2'')
   \<and> sublist
        (''Weight'' @ nl @ ''  Target: 70.0'' @ nl @ ''  Current: 0.0'' @ nl
         @ ''  Progress: 0.0%'' @ nl @ ''  Description: None'' @ nl @ ''  Goal ID: g1'' @ nl @ nl)
        (fst (get_health_goals canned_manager one_decimal (local_env ''g1'' ''g2'')
                (snd (add_health_goal canned_manager one_decimal (local_env ''g1'' ''g2'')
                        ''Weight'' 70 None (Some 2000) start))))
   \<and> connected remote_env
   \<and> lists_added_goals table_manager
   \<and> sublist
        (''Weight'' @ nl @ ''  Target: 70.0'' @ nl @ ''  Current: 0.0'' @ nl
         @ ''  Progress: 0.0%'' @ nl @ ''  Description: '' @ nl @ ''  Goal ID: r0'' @ nl @ nl)
        (fst (get_health_goals table_manager one_decimal remote_env
                (snd (add_health_goal table_manager one_decimal remote_env
                        ''Weight'' 70 None (Some 2000) bare))))"
proof -
  have loc: "\<not> connected (local_env ''g1'' ''g2'')"
    and ne: "uuid1 (local_env ''g1'' ''g2'') \<noteq> uuid2 (local_env ''g1'' ''g2'')"
    and ids: "uuid1 (local_env ''g1'' ''g2'') = ''g1''"
    and con: "connected remote_env"
    by (simp_all add: local_env_def remote_env_def)
  have shown: "py_title (py_lower ''Weight'') = ''Weight''"
    "repr_float one_decimal 70 = ''70.0''" "repr_float one_decimal 0 = ''0.0''"
    "format_1f one_decimal 0 = ''0.0''"
    by (simp_all add: str_defs one_decimal_def)
  define ra where "ra = \<lparr>goal_rows =
      [\<lparr>goal_id = ''r0'', goal_type = py_lower ''Weight'', target_value = PFloat 70,
        current_value = PFloat 0, description = Some [], created_at = ''2024-05-01T08:00:00'',
        is_active = Some True\<rparr>], food_rows = []\<rparr>"
  define rb where "rb = ra\<lparr>goal_rows := goal_rows ra @
      [\<lparr>goal_id = ''r1'', goal_type = ''daily_calories'', target_value = PFloat 2000,
        current_value = PFloat 0, description = Some ''Daily calorie intake target'',
        created_at = ''2024-05-01T08:00:00'', is_active = Some True\<rparr>]\<rparr>"
  have a1: "sb_add_health_goal table_manager
          \<lparr>r_goal_type = py_lower ''Weight'', r_target_value = 70, r_current_value = 0,
           r_description = (case None of None \<Rightarrow> [] | Some d \<Rightarrow> d), r_is_active = True\<rparr>
          (remote bare) = (Inr ''r0'', ra)"
    by (simp add: table_manager_def bare_def ra_def)
  have a2: "if truthy (Some 2000)
         then sb_add_health_goal table_manager
                \<lparr>r_goal_type = ''daily_calories'', r_target_value = of_int (the (Some 2000)),
                 r_current_value = 0, r_description = ''Daily calorie intake target'',
                 r_is_active = True\<rparr> ra = (Inr ''r1'', rb)
         else True"
    by (simp add: table_manager_def ra_def rb_def)
  have store: "lists_added_goals table_manager"
    by (rule table_lists_added_goals)
  have c1: "sublist
        (''Weight'' @ nl @ ''  Target: 70.0'' @ nl @ ''  Current: 0.0'' @ nl
         @ ''  Progress: 0.0%'' @ nl @ ''  Description: None'' @ nl @ ''  Goal ID: g1'' @ nl @ nl)
        (fst (get_health_goals canned_manager one_decimal (local_env ''g1'' ''g2'')
                (snd (add_health_goal canned_manager one_decimal (local_env ''g1'' ''g2'')
                        ''Weight'' 70 None (Some 2000) start))))"
    using add_then_get_shows_new_goal [where e = "local_env ''g1'' ''g2''"
        and e' = "local_env ''g1'' ''g2''" and M = canned_manager and F = one_decimal
        and gtype = "''Weight''" and target = 70 and descr = None and dcg = "Some 2000"
        and w = start] loc ne
    by (simp add: shown ids)
  have c2: "sublist
        (''Weight'' @ nl @ ''  Target: 70.0'' @ nl @ ''  Current: 0.0'' @ nl
         @ ''  Progress: 0.0%'' @ nl @ ''  Description: '' @ nl @ ''  Goal ID: r0'' @ nl @ nl)
        (fst (get_health_goals table_manager one_decimal remote_env
                (snd (add_health_goal table_manager one_decimal remote_env
                        ''Weight'' 70 None (Some 2000) bare))))"
    using add_then_get_shows_new_goal [where e = remote_env and e' = remote_env
        and M = table_manager and F = one_decimal and gtype = "''Weight''" and target = 70
        and descr = None and dcg = "Some 2000" and w = bare and gid = "''r0''" and ra = ra
        and cid = "''r1''" and rb = rb] con store a1 a2
    by (simp add: shown)
  from loc ne con store c1 c2 show ?thesis
    by blast
qed

subsection \<open>The amount over the daily calorie goal\<close>

lemma sum_calories_iff:
  "sum_calories acc fs = Inr t \<longleftrightarrow>
     (\<forall>f \<in> set fs. calories f \<noteq> None) \<and> t = acc + sum_list (map (\<lambda>f. the (calories f)) fs)"
  by (induction fs arbitrary: acc) (auto split: option.splits)

lemma sum_calories_append:
  "sum_calories acc (xs @ ys) =
     (case sum_calories acc xs of Inl x \<Rightarrow> Inl x | Inr s \<Rightarrow> sum_calories s ys)"
  by (induction xs arbitrary: acc) (auto split: option.splits)

lemma foods_loop_total:
  assumes "\<forall>f \<in> set fs. calories f \<noteq> None"
  shows "foods_loop fs res mc =
           Inr (res @ concat (map food_line fs), mc + sum_list (map (\<lambda>f. the (calories f)) fs))"
  using assms by (induction fs arbitrary: res mc) (auto split: option.splits)

lemma meals_loop_total:
  assumes "\<forall>f \<in> set (concat (map snd ms)). calories f \<noteq> None"
  shows "\<exists>res'. meals_loop ms res tot =
           Inr (res', tot + sum_list (map (\<lambda>f. the (calories f)) (concat (map snd ms))))"
  using assms
proof (induction ms arbitrary: res tot)
  case Nil
  then show ?case by simp
next
  case (Cons m ms)
  obtain mt foods where m: "m = (mt, foods)"
    by (cases m)
  from Cons.prems m have fs: "\<forall>f \<in> set foods. calories f \<noteq> None"
    and rest: "\<forall>f \<in> set (concat (map snd ms)). calories f \<noteq> None"
    by auto
  define mc where "mc = sum_list (map (\<lambda>f. the (calories f)) foods)"
  define res1 where "res1 =
    (if mc > 0
     then (res @ py_title mt @ nl) @ concat (map food_line foods) @ ''  Meal Total: ''
            @ str_int mc @ '' calories'' @ nl
     else (res @ py_title mt @ nl) @ concat (map food_line foods)) @ nl"
  have step: "meals_loop (m # ms) res tot = meals_loop ms res1 (tot + mc)"
    by (simp add: m foods_loop_total [OF fs] mc_def res1_def)
  from Cons.IH [OF rest, of res1 "tot + mc"] obtain res' where
    "meals_loop ms res1 (tot + mc) =
       Inr (res', tot + mc + sum_list (map (\<lambda>f. the (calories f)) (concat (map snd ms))))"
    by blast
  then have "meals_loop (m # ms) res tot =
       Inr (res', tot + sum_list (map (\<lambda>f. the (calories f)) (concat (map snd (m # ms)))))"
    by (simp only: step) (simp add: m mc_def add.assoc)
  then show ?case
    by blast
qed

lemma meals_append_set:
  "set (concat (map snd (meals_append k f ms))) = insert f (set (concat (map snd ms)))"
proof (induction ms)
  case Nil
  show ?case by simp
next
  case (Cons m ms)
  obtain k' fs where m: "m = (k', fs)"
    by (cases m)
  show ?case
  proof (cases "k' = k")
    case True
    then show ?thesis by (auto simp: m)
  next
    case False
    have "set (concat (map snd (meals_append k f (m # ms))))
            = set fs \<union> set (concat (map snd (meals_append k f ms)))"
      using False by (simp add: m)
    also have "\<dots> = set fs \<union> insert f (set (concat (map snd ms)))"
      by (simp only: Cons.IH)
    also have "\<dots> = insert f (set (concat (map snd (m # ms))))"
      by (auto simp: m)
    finally show ?thesis .
  qed
qed

lemma meals_append_sum:
  "sum_list (map g (concat (map snd (meals_append k f ms))))
     = sum_list (map g (concat (map snd ms))) + (g f :: int)"
  by (induction ms) auto

lemma group_meals_set:
  "set (concat (map snd (group_meals ms fs))) = set (concat (map snd ms)) \<union> set fs"
proof (induction fs arbitrary: ms)
  case Nil
  show ?case by simp
next
  case (Cons f fs)
  show ?case
    by (simp only: group_meals.simps Cons.IH meals_append_set) auto
qed

lemma group_meals_sum:
  "sum_list (map g (concat (map snd (group_meals ms fs))))
     = sum_list (map g (concat (map snd ms))) + (sum_list (map g fs) :: int)"
proof (induction fs arbitrary: ms)
  case Nil
  show ?case by simp
next
  case (Cons f fs)
  show ?case
    by (simp only: group_meals.simps Cons.IH meals_append_sum) simp
qed

lemma meals_loop_grouped:
  assumes "sum_calories 0 fs = Inr t"
  shows "\<exists>res'. meals_loop (group_meals [] fs) res 0 = Inr (res', t)"
proof -
  from assms have ok: "\<forall>f \<in> set fs. calories f \<noteq> None"
    and t: "t = sum_list (map (\<lambda>f. the (calories f)) fs)"
    by (simp_all add: sum_calories_iff)
  have "\<forall>f \<in> set (concat (map snd (group_meals [] fs))). calories f \<noteq> None"
    using ok by (simp only: group_meals_set) simp
  from meals_loop_total [OF this, of res 0] show ?thesis
    by (simp add: group_meals_sum t)
qed

lemma str_int_500: "str_int 500 = ''500''"
  by (simp add: str_int_def)

lemma goal_commentary_over:
  assumes "py_float t = 2000"
  shows "goal_commentary F 2500 (Some t) =
     Inr ((nl @ nl @ ''Daily Calorie Goal: '' @ py_str F t @ '' calories'' @ nl
           @ ''Progress: '' @ format_1f F 125 @ ''%'')
          @ (nl @ ''Over goal by: ''
               @ (case t of PInt i \<Rightarrow> ''500'' | PFloat x \<Rightarrow> repr_float F 500)
               @ '' calories''))"
  using assms
  by (cases t) (simp_all add: goal_commentary_def py_truthy_def py_truediv_def str_int_500)

lemma suffix_3: "suffix c (a @ b @ c)"
  by (simp add: suffix_def)


lemma add_food_log_local_text:
  assumes "\<not> connected e"
    and "sum_calories 0 (filter (\<lambda>f. date f = today e) (food_logs w)) = Inr s"
    and "goal_commentary F (s + c) (daily_goal_local (map snd (health_goals w))) = Inr cm"
  shows "fst (add_food_log M F e mtype item (Some c) w) =
           (''Food logged successfully! (Local Storage)'' @ nl @ nl @ ''Meal: ''
              @ py_title mtype @ nl @ ''Food: '' @ item @ nl
              @ (if c \<noteq> 0 then ''Calories: '' @ str_int c @ nl else [])
              @ nl @ ''Today'' @ [CHR 0x27] @ ''s Total Calories: '' @ str_int (s + c)) @ cm"
  using assms
  by (simp add: add_food_log_def add_food_log_body_def catch_all_def Let_def
      sum_calories_append)

lemma add_food_log_remote_text:
  assumes "connected e"
    and "sb_add_food_log M
          \<lparr>r_meal_type = py_lower mtype, r_food_item = item, r_calories = cals,
           r_date = today e\<rparr> (remote w) = (Inr fid, ra)"
    and "sb_get_food_logs M (today e) ra = (Inr rows, rb)"
    and "sum_calories 0 rows = Inr tc"
    and "sb_get_health_goals M rb = (Inr goals, rc)"
    and "goal_commentary F tc (daily_goal_remote goals) = Inr cm"
  shows "fst (add_food_log M F e mtype item cals w) =
           (''Food logged successfully!'' @ nl @ nl @ ''Meal: ''
              @ py_title mtype @ nl @ ''Food: '' @ item @ nl
              @ (if truthy cals then ''Calories: '' @ str_int (the cals) @ nl else [])
              @ nl @ ''Today'' @ [CHR 0x27] @ ''s Total Calories: '' @ str_int tc) @ cm"
  using assms
  by (simp add: add_food_log_def add_food_log_body_def catch_all_def Let_def)

lemma get_food_log_local_text:
  assumes "\<not> connected e"
    and "filter (\<lambda>f. date f = today e) (food_logs w) \<noteq> []"
    and "meals_loop (group_meals [] (filter (\<lambda>f. date f = today e) (food_logs w)))
           (''Today'' @ [CHR 0x27] @ ''s Food Log (Local Storage)'' @ nl @ nl) 0
         = Inr (res, tc)"
    and "goal_commentary F tc (daily_goal_local (map snd (health_goals w))) = Inr cm"
  shows "fst (get_food_log M F e w) =
           (res @ ''Daily Total: '' @ str_int tc @ '' calories'') @ cm"
  using assms
  by (simp add: get_food_log_def get_food_log_body_def catch_all_def Let_def)

lemma get_food_log_remote_text:
  assumes "connected e"
    and "sb_get_food_logs M (today e) (remote w) = (Inr rows, rb)"
    and "rows \<noteq> []"
    and "meals_loop (group_meals [] rows) (''Today'' @ [CHR 0x27] @ ''s Food Log'' @ nl @ nl) 0
         = Inr (res, tc)"
    and "sb_get_health_goals M rb = (Inr goals, rc)"
    and "goal_commentary F tc (daily_goal_remote goals) = Inr cm"
  shows "fst (get_food_log M F e w) =
           (res @ ''Daily Total: '' @ str_int tc @ '' calories'') @ cm"
  using assms
  by (simp add: get_food_log_def get_food_log_body_def catch_all_def Let_def)

text \<open>
  Claim C4, as stated: whenever a \<^verbatim>\<open>"daily_calories"\<close> goal with target 2000 exists
  and the total of the day is 2500, both tools report 500 over the goal. The search
  stops at the first goal of that type: with a goal of 3000 stored before the goal of
  2000, and 2500 logged, both tools report 500 remaining.
\<close>

theorem over_goal_second_calorie_goal:
  "map_of (health_goals two_calorie_goals) ''c2''
     = Some \<lparr>goal_id = ''c2'', goal_type = ''daily_calories'', target_value = PInt 2000,
             current_value = PFloat 0, description = Some ''Daily calorie intake target'',
             created_at = ''2024-05-01T08:00:01'', is_active = None\<rparr>
   \<and> fst (add_food_log canned_manager one_decimal (local_env ''f1'' [])
            ''dinner'' ''feast'' (Some 2500) two_calorie_goals)
     = ''Food logged successfully! (Local Storage)'' @ nl @ nl @ ''Meal: Dinner'' @ nl
         @ ''Food: feast'' @ nl @ ''Calories: 2500'' @ nl @ nl
         @ ''Today'' @ [CHR 0x27] @ ''s Total Calories: 2500'' @ nl @ nl
         @ ''Daily Calorie Goal: 3000 calories'' @ nl @ ''Progress: 83.3%'' @ nl
         @ ''Remaining: 500 calories''
   \<and> fst (get_food_log canned_manager one_decimal (local_env [] [])
            (snd (add_food_log canned_manager one_decimal (local_env ''f1'' [])
                    ''dinner'' ''feast'' (Some 2500) two_calorie_goals)))
     = ''Today'' @ [CHR 0x27] @ ''s Food Log (Local Storage)'' @ nl @ nl @ ''Dinner'' @ nl
         @ ''  feast (2500 cal)'' @ nl @ ''  Meal Total: 2500 calories'' @ nl @ nl
         @ ''Daily Total: 2500 calories'' @ nl @ nl
         @ ''Daily Calorie Goal: 3000 calories'' @ nl @ ''Progress: 83.3%'' @ nl
         @ ''Remaining: 500 calories''"
  by (simp add: two_calorie_goals_def tool_defs sample_defs Let_def str_defs
      goal_commentary_def py_truthy_def py_truediv_def food_line_def)

text \<open>
  Claim C4, amended: when the first \<^verbatim>\<open>"daily_calories"\<close> goal in the order of the
  store (in the remote branch: the first active one in the client's list) has the
  target 2000 and the total of the day is 2500, the text of \<^verbatim>\<open>add_food_log\<close> and the
  text of \<^verbatim>\<open>get_food_log\<close> end with the line \<^verbatim>\<open>Over goal by: 500 calories\<close>. The
  figure is the absolute value of target minus total; it is written \<^verbatim>\<open>500\<close> for
  an \<^verbatim>\<open>int\<close> target and as the float 500 for a \<^verbatim>\<open>float\<close> target. For
  \<^verbatim>\<open>add_food_log\<close> the total counts the entry being logged.
\<close>

theorem over_goal_by_500:
  assumes "py_float t = 2000"
  shows
    "(\<not> connected e \<longrightarrow> daily_goal_local (map snd (health_goals w)) = Some t \<longrightarrow>
        sum_calories 0 (filter (\<lambda>f. date f = today e) (food_logs w)) = Inr s \<longrightarrow>
        s + c = 2500 \<longrightarrow>
        suffix (nl @ ''Over goal by: ''
                  @ (case t of PInt i \<Rightarrow> ''500'' | PFloat x \<Rightarrow> repr_float F 500)
                  @ '' calories'')
          (fst (add_food_log M F e mtype item (Some c) w)))
     \<and> (\<not> connected e \<longrightarrow> daily_goal_local (map snd (health_goals w)) = Some t \<longrightarrow>
        sum_calories 0 (filter (\<lambda>f. date f = today e) (food_logs w)) = Inr 2500 \<longrightarrow>
        suffix (nl @ ''Over goal by: ''
                  @ (case t of PInt i \<Rightarrow> ''500'' | PFloat x \<Rightarrow> repr_float F 500)
                  @ '' calories'')
          (fst (get_food_log M F e w)))
     \<and> (connected e \<longrightarrow>
        sb_add_food_log M
          \<lparr>r_meal_type = py_lower mtype, r_food_item = item, r_calories = cals,
           r_date = today e\<rparr> (remote w) = (Inr fid, ra) \<longrightarrow>
        sb_get_food_logs M (today e) ra = (Inr rows, rb) \<longrightarrow>
        sum_calories 0 rows = Inr 2500 \<longrightarrow>
        sb_get_health_goals M rb = (Inr goals, rc) \<longrightarrow>
        daily_goal_remote goals = Some t \<longrightarrow>
        suffix (nl @ ''Over goal by: ''
                  @ (case t of PInt i \<Rightarrow> ''500'' | PFloat x \<Rightarrow> repr_float F 500)
                  @ '' calories'')
          (fst (add_food_log M F e mtype item cals w)))
     \<and> (connected e \<longrightarrow>
        sb_get_food_logs M (today e) (remote w) = (Inr rows, rb) \<longrightarrow>
        sum_calories 0 rows = Inr 2500 \<longrightarrow>
        sb_get_health_goals M rb = (Inr goals, rc) \<longrightarrow>
        daily_goal_remote goals = Some t \<longrightarrow>
        suffix (nl @ ''Over goal by: ''
                  @ (case t of PInt i \<Rightarrow> ''500'' | PFloat x \<Rightarrow> repr_float F 500)
                  @ '' calories'')
          (fst (get_food_log M F e w)))"
proof (intro conjI impI)
  note gc = goal_commentary_over [OF assms, of F]
  {
    assume loc: "\<not> connected e"
      and dg: "daily_goal_local (map snd (health_goals w)) = Some t"
      and sm: "sum_calories 0 (filter (\<lambda>f. date f = today e) (food_logs w)) = Inr s"
      and tot: "s + c = 2500"
    from gc dg tot
    have "goal_commentary F (s + c) (daily_goal_local (map snd (health_goals w))) =
            Inr ((nl @ nl @ ''Daily Calorie Goal: '' @ py_str F t @ '' calories'' @ nl
                  @ ''Progress: '' @ format_1f F 125 @ ''%'')
                 @ (nl @ ''Over goal by: ''
                      @ (case t of PInt i \<Rightarrow> ''500'' | PFloat x \<Rightarrow> repr_float F 500)
                      @ '' calories''))"
      by simp
    from add_food_log_local_text [OF loc sm this]
    show "suffix (nl @ ''Over goal by: ''
                  @ (case t of PInt i \<Rightarrow> ''500'' | PFloat x \<Rightarrow> repr_float F 500)
                  @ '' calories'')
          (fst (add_food_log M F e mtype item (Some c) w))"
      by (simp only: suffix_3)
  }
  {
    assume loc: "\<not> connected e"
      and dg: "daily_goal_local (map snd (health_goals w)) = Some t"
      and sm: "sum_calories 0 (filter (\<lambda>f. date f = today e) (food_logs w)) = Inr 2500"
    from sm have ne: "filter (\<lambda>f. date f = today e) (food_logs w) \<noteq> []"
      by auto
    from meals_loop_grouped [OF sm] obtain res' where
      ml: "meals_loop (group_meals [] (filter (\<lambda>f. date f = today e) (food_logs w)))
             (''Today'' @ [CHR 0x27] @ ''s Food Log (Local Storage)'' @ nl @ nl) 0
             = Inr (res', 2500)"
      by blast
    from gc dg
    have "goal_commentary F 2500 (daily_goal_local (map snd (health_goals w))) =
            Inr ((nl @ nl @ ''Daily Calorie Goal: '' @ py_str F t @ '' calories'' @ nl
                  @ ''Progress: '' @ format_1f F 125 @ ''%'')
                 @ (nl @ ''Over goal by: ''
                      @ (case t of PInt i \<Rightarrow> ''500'' | PFloat x \<Rightarrow> repr_float F 500)
                      @ '' calories''))"
      by simp
    from get_food_log_local_text [OF loc ne ml this]
    show "suffix (nl @ ''Over goal by: ''
                  @ (case t of PInt i \<Rightarrow> ''500'' | PFloat x \<Rightarrow> repr_float F 500)
                  @ '' calories'')
          (fst (get_food_log M F e w))"
      by (simp only: suffix_3)
  }
  {
    assume con: "connected e"
      and af: "sb_add_food_log M
          \<lparr>r_meal_type = py_lower mtype, r_food_item = item, r_calories = cals,
           r_date = today e\<rparr> (remote w) = (Inr fid, ra)"
      and fl: "sb_get_food_logs M (today e) ra = (Inr rows, rb)"
      and sm: "sum_calories 0 rows = Inr 2500"
      and hg: "sb_get_health_goals M rb = (Inr goals, rc)"
      and dg: "daily_goal_remote goals = Some t"
    from gc dg
    have "goal_commentary F 2500 (daily_goal_remote goals) =
            Inr ((nl @ nl @ ''Daily Calorie Goal: '' @ py_str F t @ '' calories'' @ nl
                  @ ''Progress: '' @ format_1f F 125 @ ''%'')
                 @ (nl @ ''Over goal by: ''
                      @ (case t of PInt i \<Rightarrow> ''500'' | PFloat x \<Rightarrow> repr_float F 500)
                      @ '' calories''))"
      by simp
    from add_food_log_remote_text [OF con af fl sm hg this]
    show "suffix (nl @ ''Over goal by: ''
                  @ (case t of PInt i \<Rightarrow> ''500'' | PFloat x \<Rightarrow> repr_float F 500)
                  @ '' calories'')
          (fst (add_food_log M F e mtype item cals w))"
      by (simp only: suffix_3)
  }
  {
    assume con: "connected e"
      and fl: "sb_get_food_logs M (today e) (remote w) = (Inr rows, rb)"
      and sm: "sum_calories 0 rows = Inr 2500"
      and hg: "sb_get_health_goals M rb = (Inr goals, rc)"
      and dg: "daily_goal_remote goals = Some t"
    from sm have ne: "rows \<noteq> []"
      by auto
    from meals_loop_grouped [OF sm] obtain res' where
      ml: "meals_loop (group_meals [] rows) (''Today'' @ [CHR 0x27] @ ''s Food Log'' @ nl @ nl) 0
             = Inr (res', 2500)"
      by blast
    from gc dg
    have "goal_commentary F 2500 (daily_goal_remote goals) =
            Inr ((nl @ nl @ ''Daily Calorie Goal: '' @ py_str F t @ '' calories'' @ nl
                  @ ''Progress: '' @ format_1f F 125 @ ''%'')
                 @ (nl @ ''Over goal by: ''
                      @ (case t of PInt i \<Rightarrow> ''500'' | PFloat x \<Rightarrow> repr_float F 500)
                      @ '' calories''))"
      by simp
    from get_food_log_remote_text [OF con fl ne ml hg this]
    show "suffix (nl @ ''Over goal by: ''
                  @ (case t of PInt i \<Rightarrow> ''500'' | PFloat x \<Rightarrow> repr_float F 500)
                  @ '' calories'')
          (fst (get_food_log M F e w))"
      by (simp only: suffix_3)
  }
qed

lemma one_calorie_goal_store:
  "health_goals one_calorie_goal =
     [(''g1'', \<lparr>goal_id = ''g1'', goal_type = ''weight'', target_value = PFloat 70,
                current_value = PFloat 0, description = None,
                created_at = ''2024-05-01T08:00:00'', is_active = None\<rparr>),
      (''c1'', \<lparr>goal_id = ''c1'', goal_type = ''daily_calories'', target_value = PInt 2000,
                current_value = PFloat 0, description = Some ''Daily calorie intake target'',
                created_at = ''2024-05-01T08:00:01'', is_active = None\<rparr>)]"
  by (simp add: one_calorie_goal_def add_health_goal_def add_health_goal_body_def
      catch_all_def Let_def local_env_def start_def py_lower_def to_lower_def
      upper_letters_def lower_letters_def)

theorem over_goal_by_500_witness:
  "py_float (PInt 2000) = 2000
   \<and> \<not> connected (local_env ''f2'' [])
   \<and> daily_goal_local (map snd (health_goals one_calorie_goal)) = Some (PInt 2000)
   \<and> suffix (nl @ ''Over goal by: 500 calories'')
        (fst (add_food_log canned_manager one_decimal (local_env ''f2'' [])
                ''dinner'' ''feast'' (Some 1500)
                (one_calorie_goal\<lparr>food_logs := [feast_row\<lparr>calories := Some 1000\<rparr>]\<rparr>)))
   \<and> suffix (nl @ ''Over goal by: 500 calories'')
        (fst (get_food_log canned_manager one_decimal (local_env ''f2'' [])
                (one_calorie_goal\<lparr>food_logs := [feast_row]\<rparr>)))
   \<and> py_float (PFloat 2000) = 2000
   \<and> connected remote_env
   \<and> sum_calories 0 [feast_row] = Inr 2500
   \<and> daily_goal_remote [calorie_row] = Some (PFloat 2000)
   \<and> suffix (nl @ ''Over goal by: 500.0 calories'')
        (fst (add_food_log canned_manager one_decimal remote_env
                ''dinner'' ''feast'' (Some 2500) (start\<lparr>remote := fed\<rparr>)))
   \<and> suffix (nl @ ''Over goal by: 500.0 calories'')
        (fst (get_food_log canned_manager one_decimal remote_env (start\<lparr>remote := fed\<rparr>)))"
proof -
  have i: "py_float (PInt 2000) = 2000" and f: "py_float (PFloat 2000) = 2000"
    by simp_all
  have loc: "\<not> connected (local_env ''f2'' [])" and con: "connected remote_env"
    by (simp_all add: local_env_def remote_env_def)
  have dg: "daily_goal_local (map snd (health_goals one_calorie_goal)) = Some (PInt 2000)"
    by (simp add: one_calorie_goal_store)
  have s1: "sum_calories 0
              (filter (\<lambda>f. date f = today (local_env ''f2'' []))
                 (food_logs (one_calorie_goal\<lparr>food_logs := [feast_row\<lparr>calories := Some 1000\<rparr>]\<rparr>)))
            = Inr 1000"
    by (simp add: feast_row_def local_env_def)
  have s2: "sum_calories 0
              (filter (\<lambda>f. date f = today (local_env ''f2'' []))
                 (food_logs (one_calorie_goal\<lparr>food_logs := [feast_row]\<rparr>)))
            = Inr 2500"
    by (simp add: feast_row_def local_env_def)
  have s3: "sum_calories 0 [feast_row] = Inr 2500"
    by (simp add: feast_row_def)
  have dr: "daily_goal_remote [calorie_row] = Some (PFloat 2000)"
    by (simp add: calorie_row_def get_is_active_def)
  have af: "sb_add_food_log canned_manager
              \<lparr>r_meal_type = py_lower ''dinner'', r_food_item = ''feast'',
               r_calories = Some 2500, r_date = today remote_env\<rparr>
              (remote (start\<lparr>remote := fed\<rparr>)) = (Inr ''f9'', fed)"
    by (simp add: canned_manager_def fed_def)
  have fl: "sb_get_food_logs canned_manager (today remote_env) fed = (Inr [feast_row], fed)"
    by (simp add: canned_manager_def fed_def)
  have fl': "sb_get_food_logs canned_manager (today remote_env) (remote (start\<lparr>remote := fed\<rparr>))
               = (Inr [feast_row], fed)"
    by (simp add: canned_manager_def fed_def)
  have hg: "sb_get_health_goals canned_manager fed = (Inr [calorie_row], fed)"
    by (simp add: canned_manager_def fed_def)
  have c1: "suffix (nl @ ''Over goal by: 500 calories'')
        (fst (add_food_log canned_manager one_decimal (local_env ''f2'' [])
                ''dinner'' ''feast'' (Some 1500)
                (one_calorie_goal\<lparr>food_logs := [feast_row\<lparr>calories := Some 1000\<rparr>]\<rparr>)))"
    using over_goal_by_500 [OF i, where e = "local_env ''f2'' []"
        and w = "one_calorie_goal\<lparr>food_logs := [feast_row\<lparr>calories := Some 1000\<rparr>]\<rparr>"
        and s = 1000 and c = 1500 and M = canned_manager and F = one_decimal
        and mtype = "''dinner''" and item = "''feast''"] loc dg s1
    by simp
  have c2: "suffix (nl @ ''Over goal by: 500 calories'')
        (fst (get_food_log canned_manager one_decimal (local_env ''f2'' [])
                (one_calorie_goal\<lparr>food_logs := [feast_row]\<rparr>)))"
    using over_goal_by_500 [OF i, where e = "local_env ''f2'' []"
        and w = "one_calorie_goal\<lparr>food_logs := [feast_row]\<rparr>"
        and M = canned_manager and F = one_decimal] loc dg s2
    by simp
  have r500: "repr_float one_decimal 500 = ''500.0''"
    by (simp add: one_decimal_def str_int_def)
  have c3: "suffix (nl @ ''Over goal by: 500.0 calories'')
        (fst (add_food_log canned_manager one_decimal remote_env
                ''dinner'' ''feast'' (Some 2500) (start\<lparr>remote := fed\<rparr>)))"
    using over_goal_by_500 [OF f, where e = remote_env
        and w = "start\<lparr>remote := fed\<rparr>" and M = canned_manager and F = one_decimal
        and mtype = "''dinner''" and item = "''feast''" and cals = "Some 2500"
        and fid = "''f9''" and ra = fed and rows = "[feast_row]" and rb = fed
        and goals = "[calorie_row]" and rc = fed] con af fl s3 hg dr
    by (simp add: r500)
  have c4: "suffix (nl @ ''Over goal by: 500.0 calories'')
        (fst (get_food_log canned_manager one_decimal remote_env (start\<lparr>remote := fed\<rparr>)))"
    using over_goal_by_500 [OF f, where e = remote_env
        and w = "start\<lparr>remote := fed\<rparr>" and M = canned_manager and F = one_decimal
        and rows = "[feast_row]" and rb = fed
        and goals = "[calorie_row]" and rc = fed] con fl' s3 hg dr
    by (simp add: r500)
  from i f loc con dg s3 dr c1 c2 c3 c4 show ?thesis
    by blast
qed

subsection \<open>Which backend serves a call\<close>

lemma remote_keeps_local:
  assumes "connected (env_of c)"
  shows "health_goals (snd (step M F c w)) = health_goals w
         \<and> food_logs (snd (step M F c w)) = food_logs w"
  using assms
  by (cases c) (simp_all add: tool_defs Let_def split: prod.splits sum.splits)

lemma remote_ignores_local:
  assumes "connected (env_of c)"
  shows "step M F c (w\<lparr>health_goals := hg, food_logs := fl\<rparr>)
           = (fst (step M F c w), (snd (step M F c w))\<lparr>health_goals := hg, food_logs := fl\<rparr>)"
  using assms
  by (cases c) (simp_all add: tool_defs Let_def split: prod.splits sum.splits)

lemma local_keeps_remote:
  assumes "\<not> connected (env_of c)"
  shows "remote (snd (step M F c w)) = remote w"
  using assms
  by (cases c) (simp_all add: tool_defs Let_def split: prod.splits sum.splits option.splits)

lemma local_ignores_remote:
  assumes "\<not> connected (env_of c)"
  shows "step M' F c (w\<lparr>remote := r'\<rparr>)
           = (fst (step M F c w), (snd (step M F c w))\<lparr>remote := r'\<rparr>)"
  using assms
  by (cases c) (simp_all add: tool_defs Let_def split: prod.splits sum.splits option.splits)

lemma foods_loop_prefix: "foods_loop fs res mc = Inr (res', t) \<Longrightarrow> prefix res res'"
proof (induction fs arbitrary: res mc)
  case Nil
  then show ?case by simp
next
  case (Cons f fs)
  from Cons.prems obtain c where c: "calories f = Some c"
    and rest: "foods_loop fs (res @ food_line f) (mc + c) = Inr (res', t)"
    by (auto split: option.splits)
  from Cons.IH [OF rest] show ?case
    by (rule append_prefixD)
qed

lemma meals_loop_prefix: "meals_loop ms res tot = Inr (res', t) \<Longrightarrow> prefix res res'"
proof (induction ms arbitrary: res tot)
  case Nil
  then show ?case by simp
next
  case (Cons m ms)
  obtain mt foods where m: "m = (mt, foods)"
    by (cases m)
  from Cons.prems m obtain r1 mc where
    fl: "foods_loop foods (res @ py_title mt @ nl) 0 = Inr (r1, mc)"
    and rest: "meals_loop ms
                 ((if mc > 0
                   then r1 @ ''  Meal Total: '' @ str_int mc @ '' calories'' @ nl
                   else r1) @ nl) (tot + mc) = Inr (res', t)"
    by (auto split: sum.splits)
  have "prefix res r1"
    using foods_loop_prefix [OF fl] by (rule append_prefixD)
  also have "prefix r1 ((if mc > 0
                   then r1 @ ''  Meal Total: '' @ str_int mc @ '' calories'' @ nl
                   else r1) @ nl)"
    by simp
  also have "prefix \<dots> res'"
    using rest by (rule Cons.IH)
  finally show ?case .
qed

lemma sublist_in_middle: "sublist x ((a @ x) @ b)"
  using sublist_appendI [of x a b] by simp

lemma goal_commentary_total: "\<exists>cm. goal_commentary F tc dg = Inr cm"
  by (cases dg) (simp_all add: goal_commentary_def py_truthy_def py_truediv_def Let_def)

lemma get_food_log_local_shape:
  assumes loc: "\<not> connected e"
    and sm: "sum_calories 0 (filter (\<lambda>f. date f = today e) (food_logs w)) = Inr tc"
    and ne: "filter (\<lambda>f. date f = today e) (food_logs w) \<noteq> []"
  shows "prefix (''Today'' @ [CHR 0x27] @ ''s Food Log (Local Storage)'' @ nl @ nl)
           (fst (get_food_log M F e w))
         \<and> sublist (''Daily Total: '' @ str_int tc @ '' calories'') (fst (get_food_log M F e w))"
proof -
  define hdr where "hdr = ''Today'' @ [CHR 0x27] @ ''s Food Log (Local Storage)'' @ nl @ nl"
  from meals_loop_grouped [OF sm, of hdr] obtain res where
    ml: "meals_loop (group_meals [] (filter (\<lambda>f. date f = today e) (food_logs w))) hdr 0
           = Inr (res, tc)"
    by blast
  obtain cm where
    cm: "goal_commentary F tc (daily_goal_local (map snd (health_goals w))) = Inr cm"
    using goal_commentary_total by blast
  have eq: "fst (get_food_log M F e w)
              = (res @ ''Daily Total: '' @ str_int tc @ '' calories'') @ cm"
    using get_food_log_local_text [OF loc ne ml [unfolded hdr_def] cm] .
  from meals_loop_prefix [OF ml] obtain rest where res: "res = hdr @ rest"
    by (auto simp: prefix_def)
  have "prefix hdr (fst (get_food_log M F e w))"
    unfolding eq res by simp
  moreover have "sublist (''Daily Total: '' @ str_int tc @ '' calories'')
                   (fst (get_food_log M F e w))"
    unfolding eq by (rule sublist_in_middle)
  ultimately show ?thesis
    unfolding hdr_def by blast
qed

lemma get_food_log_remote_shape:
  assumes con: "connected e"
    and fl: "sb_get_food_logs M (today e) (remote w) = (Inr rows, ra)"
    and sm: "sum_calories 0 rows = Inr tc"
    and ne: "rows \<noteq> []"
  shows "prefix (''Today'' @ [CHR 0x27] @ ''s Food Log'' @ nl @ nl) (fst (get_food_log M F e w))
         \<and> sublist (''Daily Total: '' @ str_int tc @ '' calories'') (fst (get_food_log M F e w))"
proof -
  define hdr where "hdr = ''Today'' @ [CHR 0x27] @ ''s Food Log'' @ nl @ nl"
  from meals_loop_grouped [OF sm, of hdr] obtain res where
    ml: "meals_loop (group_meals [] rows) hdr 0 = Inr (res, tc)"
    by blast
  have "\<exists>cm. fst (get_food_log M F e w)
               = (res @ ''Daily Total: '' @ str_int tc @ '' calories'') @ cm"
  proof (cases "sb_get_health_goals M ra")
    case (Pair resp rb)
    show ?thesis
    proof (cases resp)
      case (Inl x)
      have "fst (get_food_log M F e w)
              = (res @ ''Daily Total: '' @ str_int tc @ '' calories'') @ []"
        using con fl ne ml [unfolded hdr_def] Pair Inl
        by (simp add: get_food_log_def get_food_log_body_def catch_all_def Let_def)
      then show ?thesis
        by blast
    next
      case (Inr goals)
      obtain cm where cm: "goal_commentary F tc (daily_goal_remote goals) = Inr cm"
        using goal_commentary_total by blast
      from Pair Inr have hg: "sb_get_health_goals M ra = (Inr goals, rb)"
        by simp
      from get_food_log_remote_text [OF con fl ne ml [unfolded hdr_def] hg cm]
      show ?thesis
        by blast
    qed
  qed
  then obtain cm where eq: "fst (get_food_log M F e w)
               = (res @ ''Daily Total: '' @ str_int tc @ '' calories'') @ cm"
    by blast
  from meals_loop_prefix [OF ml] obtain rest where res: "res = hdr @ rest"
    by (auto simp: prefix_def)
  have "prefix hdr (fst (get_food_log M F e w))"
    unfolding eq res by simp
  moreover have "sublist (''Daily Total: '' @ str_int tc @ '' calories'')
                   (fst (get_food_log M F e w))"
    unfolding eq by (rule sublist_in_middle)
  ultimately show ?thesis
    unfolding hdr_def by blast
qed

lemma goal_id_in_lines: "sublist (''  Goal ID: '' @ goal_id g @ nl) (goal_lines F g p)"
proof -
  have "goal_lines F g p =
          (py_title (goal_type g) @ nl
           @ ''  Target: '' @ py_str F (target_value g) @ nl
           @ ''  Current: '' @ py_str F (current_value g) @ nl
           @ ''  Progress: '' @ format_1f F p @ ''%'' @ nl
           @ ''  Description: '' @ (case description g of None \<Rightarrow> ''None'' | Some d \<Rightarrow> d) @ nl)
          @ (''  Goal ID: '' @ goal_id g @ nl) @ nl"
    by (simp add: goal_lines_def)
  then show ?thesis
    by (simp only: sublist_appendI)
qed

lemma listing_shows_id:
  assumes "g \<in> set gs"
  shows "sublist (''  Goal ID: '' @ goal_id g @ nl)
           (hdr @ concat (map (\<lambda>g. goal_lines F g (p g)) gs))"
proof -
  have "sublist (goal_lines F g (p g)) (hdr @ concat (map (\<lambda>g. goal_lines F g (p g)) gs))"
    using assms by (rule sublist_concat_map)
  with goal_id_in_lines [of g F "p g"] show ?thesis
    by (rule sublist_order.order.trans)
qed


lemma served_by_remote:
  "(connected e \<longrightarrow>
      remote (snd (add_health_goal M F e gtype target descr dcg w)) =
        (case sb_add_health_goal M
                \<lparr>r_goal_type = py_lower gtype, r_target_value = target, r_current_value = 0,
                 r_description = (case descr of None \<Rightarrow> [] | Some d \<Rightarrow> d),
                 r_is_active = True\<rparr>
                (remote w) of
           (Inl x, ra) \<Rightarrow> ra
         | (Inr new, ra) \<Rightarrow>
             if truthy dcg
             then snd (sb_add_health_goal M
                    \<lparr>r_goal_type = ''daily_calories'', r_target_value = of_int (the dcg),
                     r_current_value = 0, r_description = ''Daily calorie intake target'',
                     r_is_active = True\<rparr> ra)
             else ra)
      \<and> remote (snd (update_health_goal M F e gid target' current' descr w)) =
          snd (sb_update_health_goal M gid
                 \<lparr>upd_target_value = target', upd_current_value = current',
                  upd_description = descr\<rparr> (remote w))
      \<and> remote (snd (add_food_log M F e mtype item cals w)) =
          (case sb_add_food_log M
                  \<lparr>r_meal_type = py_lower mtype, r_food_item = item, r_calories = cals,
                   r_date = today e\<rparr> (remote w) of
             (Inl x, ra) \<Rightarrow> ra
           | (Inr new, ra) \<Rightarrow>
               (case sb_get_food_logs M (today e) ra of
                  (Inl x, rb) \<Rightarrow> rb
                | (Inr rows, rb) \<Rightarrow>
                    (case sum_calories 0 rows of
                       Inl x \<Rightarrow> rb
                     | Inr tc \<Rightarrow> snd (sb_get_health_goals M rb)))))
   \<and> (connected e \<longrightarrow> sb_get_health_goals M (remote w) = (Inr goals, ra) \<longrightarrow>
      snd (get_health_goals M F e w) = w\<lparr>remote := ra\<rparr>
      \<and> (if goals = []
         then fst (get_health_goals M F e w)
                = ''No active health goals found. Add a goal to get started!''
         else prefix (''Active Health Goals'' @ nl @ nl) (fst (get_health_goals M F e w)))
      \<and> (g \<in> set goals \<longrightarrow>
           sublist (''  Goal ID: '' @ goal_id g @ nl) (fst (get_health_goals M F e w))))
   \<and> (connected e \<longrightarrow> sb_get_food_logs M (today e) (remote w) = (Inr rows, ra) \<longrightarrow>
      (if rows = []
       then get_food_log M F e w = (''No food logged today'', w\<lparr>remote := ra\<rparr>)
       else sum_calories 0 rows = Inr tc \<longrightarrow>
            prefix (''Today'' @ [CHR 0x27] @ ''s Food Log'' @ nl @ nl)
              (fst (get_food_log M F e w))
            \<and> sublist (''Daily Total: '' @ str_int tc @ '' calories'')
                (fst (get_food_log M F e w))))"
proof (intro conjI impI)
  assume con: "connected e"
  show "remote (snd (add_health_goal M F e gtype target descr dcg w)) =
        (case sb_add_health_goal M
                \<lparr>r_goal_type = py_lower gtype, r_target_value = target, r_current_value = 0,
                 r_description = (case descr of None \<Rightarrow> [] | Some d \<Rightarrow> d),
                 r_is_active = True\<rparr>
                (remote w) of
           (Inl x, ra) \<Rightarrow> ra
         | (Inr new, ra) \<Rightarrow>
             if truthy dcg
             then snd (sb_add_health_goal M
                    \<lparr>r_goal_type = ''daily_calories'', r_target_value = of_int (the dcg),
                     r_current_value = 0, r_description = ''Daily calorie intake target'',
                     r_is_active = True\<rparr> ra)
             else ra)"
    using con by (rule add_health_goal_remote_store)
  show "remote (snd (update_health_goal M F e gid target' current' descr w)) =
          snd (sb_update_health_goal M gid
                 \<lparr>upd_target_value = target', upd_current_value = current',
                  upd_description = descr\<rparr> (remote w))"
    using con
    by (simp add: update_health_goal_def update_health_goal_body_def catch_all_def Let_def
        split: prod.splits sum.splits)
  show "remote (snd (add_food_log M F e mtype item cals w)) =
          (case sb_add_food_log M
                  \<lparr>r_meal_type = py_lower mtype, r_food_item = item, r_calories = cals,
                   r_date = today e\<rparr> (remote w) of
             (Inl x, ra) \<Rightarrow> ra
           | (Inr new, ra) \<Rightarrow>
               (case sb_get_food_logs M (today e) ra of
                  (Inl x, rb) \<Rightarrow> rb
                | (Inr rows, rb) \<Rightarrow>
                    (case sum_calories 0 rows of
                       Inl x \<Rightarrow> rb
                     | Inr tc \<Rightarrow> snd (sb_get_health_goals M rb))))"
    using con
    by (simp add: add_food_log_def add_food_log_body_def catch_all_def Let_def
        split: prod.splits sum.splits)
next
  assume con: "connected e" and hg: "sb_get_health_goals M (remote w) = (Inr goals, ra)"
  define f where "f = (\<lambda>g. goal_lines F g
              (if 0 < py_float (target_value g)
               then py_float (current_value g) / py_float (target_value g) * 100 else 0))"
  have res: "get_health_goals M F e w =
          (if goals = []
           then ''No active health goals found. Add a goal to get started!''
           else (''Active Health Goals'' @ nl @ nl) @ concat (map f goals),
           w\<lparr>remote := ra\<rparr>)"
    using con hg
    by (simp add: get_health_goals_def get_health_goals_body_def catch_all_def Let_def
        goals_loop_eq f_def)
  show "snd (get_health_goals M F e w) = w\<lparr>remote := ra\<rparr>"
    by (simp add: res)
  show "if goals = []
         then fst (get_health_goals M F e w)
                = ''No active health goals found. Add a goal to get started!''
         else prefix (''Active Health Goals'' @ nl @ nl) (fst (get_health_goals M F e w))"
    by (simp only: res fst_conv prefixI [OF refl] if_True if_False split: if_split) simp
  {
    assume g: "g \<in> set goals"
    then have "goals \<noteq> []"
      by auto
    then have "fst (get_health_goals M F e w)
                 = (''Active Health Goals'' @ nl @ nl) @ concat (map f goals)"
      by (simp only: res fst_conv if_False)
    then show "sublist (''  Goal ID: '' @ goal_id g @ nl) (fst (get_health_goals M F e w))"
      using listing_shows_id [OF g, of "''Active Health Goals'' @ nl @ nl" F]
      by (simp only: f_def)
  }
next
  assume con: "connected e" and fl: "sb_get_food_logs M (today e) (remote w) = (Inr rows, ra)"
  show "if rows = []
       then get_food_log M F e w = (''No food logged today'', w\<lparr>remote := ra\<rparr>)
       else sum_calories 0 rows = Inr tc \<longrightarrow>
            prefix (''Today'' @ [CHR 0x27] @ ''s Food Log'' @ nl @ nl)
              (fst (get_food_log M F e w))
            \<and> sublist (''Daily Total: '' @ str_int tc @ '' calories'')
                (fst (get_food_log M F e w))"
  proof (cases "rows = []")
    case True
    then show ?thesis
      using con fl
      by (simp add: get_food_log_def get_food_log_body_def catch_all_def)
  next
    case False
    then show ?thesis
      using get_food_log_remote_shape [OF con fl _ False, of tc F] by (simp only: if_False) blast
  qed
qed

lemma served_by_local:
  "(\<not> connected e \<longrightarrow>
      health_goals (snd (add_health_goal M F e gtype target descr dcg w)) =
        (if truthy dcg
         then AList.update (uuid2 e)
                \<lparr>goal_id = uuid2 e, goal_type = ''daily_calories'',
                 target_value = PInt (the dcg), current_value = PFloat 0,
                 description = Some ''Daily calorie intake target'',
                 created_at = now2 e, is_active = None\<rparr>
                (AList.update (uuid1 e)
                   \<lparr>goal_id = uuid1 e, goal_type = py_lower gtype,
                    target_value = PFloat target, current_value = PFloat 0,
                    description = descr, created_at = now1 e, is_active = None\<rparr>
                   (health_goals w))
         else AList.update (uuid1 e)
                \<lparr>goal_id = uuid1 e, goal_type = py_lower gtype,
                 target_value = PFloat target, current_value = PFloat 0,
                 description = descr, created_at = now1 e, is_active = None\<rparr>
                (health_goals w))
      \<and> food_logs (snd (add_food_log M F e mtype item cals w)) =
          food_logs w @
            [\<lparr>food_id = uuid1 e, meal_type = py_lower mtype, food_item = item,
              calories = cals, date = today e, created_at' = now1 e\<rparr>]
      \<and> snd (get_health_goals M F e w) = w
      \<and> (if filter get_is_active (map snd (health_goals w)) = []
         then fst (get_health_goals M F e w)
                = ''No active health goals found. Add a goal to get started! (Local Storage)''
         else prefix (''Active Health Goals (Local Storage)'' @ nl @ nl)
                (fst (get_health_goals M F e w))))
   \<and> (\<not> connected e \<longrightarrow> g \<in> set (filter get_is_active (map snd (health_goals w))) \<longrightarrow>
      sublist (''  Goal ID: '' @ goal_id g @ nl) (fst (get_health_goals M F e w)))
   \<and> (\<not> connected e \<longrightarrow> map_of (health_goals w) gid = Some g \<longrightarrow>
      health_goals (snd (update_health_goal M F e gid target' current' descr w)) =
        AList.update gid
          (g\<lparr>target_value := (case target' of None \<Rightarrow> target_value g | Some t \<Rightarrow> PFloat t),
             current_value := (case current' of None \<Rightarrow> current_value g | Some c \<Rightarrow> PFloat c),
             description := (case descr of None \<Rightarrow> description g | Some d \<Rightarrow> Some d)\<rparr>)
          (health_goals w))
   \<and> (\<not> connected e \<longrightarrow>
      (if filter (\<lambda>f. date f = today e) (food_logs w) = []
       then get_food_log M F e w = (''No food logged today (Local Storage)'', w)
       else sum_calories 0 (filter (\<lambda>f. date f = today e) (food_logs w)) = Inr tc \<longrightarrow>
            prefix (''Today'' @ [CHR 0x27] @ ''s Food Log (Local Storage)'' @ nl @ nl)
              (fst (get_food_log M F e w))
            \<and> sublist (''Daily Total: '' @ str_int tc @ '' calories'')
                (fst (get_food_log M F e w))))"
proof (intro conjI impI)
  assume loc: "\<not> connected e"
  show "health_goals (snd (add_health_goal M F e gtype target descr dcg w)) =
        (if truthy dcg
         then AList.update (uuid2 e)
                \<lparr>goal_id = uuid2 e, goal_type = ''daily_calories'',
                 target_value = PInt (the dcg), current_value = PFloat 0,
                 description = Some ''Daily calorie intake target'',
                 created_at = now2 e, is_active = None\<rparr>
                (AList.update (uuid1 e)
                   \<lparr>goal_id = uuid1 e, goal_type = py_lower gtype,
                    target_value = PFloat target, current_value = PFloat 0,
                    description = descr, created_at = now1 e, is_active = None\<rparr>
                   (health_goals w))
         else AList.update (uuid1 e)
                \<lparr>goal_id = uuid1 e, goal_type = py_lower gtype,
                 target_value = PFloat target, current_value = PFloat 0,
                 description = descr, created_at = now1 e, is_active = None\<rparr>
                (health_goals w))"
    using loc by (rule add_health_goal_local_store)
  show "food_logs (snd (add_food_log M F e mtype item cals w)) =
          food_logs w @
            [\<lparr>food_id = uuid1 e, meal_type = py_lower mtype, food_item = item,
              calories = cals, date = today e, created_at' = now1 e\<rparr>]"
    using loc
    by (simp add: add_food_log_def add_food_log_body_def catch_all_def Let_def
        split: sum.splits)
  define f where "f = (\<lambda>g. goal_lines F g
              (if 0 < py_float (target_value g)
               then py_float (current_value g) / py_float (target_value g) * 100 else 0))"
  have res: "get_health_goals M F e w =
          (if filter get_is_active (map snd (health_goals w)) = []
           then ''No active health goals found. Add a goal to get started! (Local Storage)''
           else (''Active Health Goals (Local Storage)'' @ nl @ nl)
                  @ concat (map f (filter get_is_active (map snd (health_goals w)))),
           w)"
    using loc
    by (simp add: get_health_goals_def get_health_goals_body_def catch_all_def Let_def
        goals_loop_eq f_def)
  show "snd (get_health_goals M F e w) = w"
    by (simp add: res)
  show "if filter get_is_active (map snd (health_goals w)) = []
         then fst (get_health_goals M F e w)
                = ''No active health goals found. Add a goal to get started! (Local Storage)''
         else prefix (''Active Health Goals (Local Storage)'' @ nl @ nl)
                (fst (get_health_goals M F e w))"
    by (simp only: res fst_conv prefixI [OF refl] if_True if_False split: if_split) simp
  {
    assume g: "g \<in> set (filter get_is_active (map snd (health_goals w)))"
    then have "filter get_is_active (map snd (health_goals w)) \<noteq> []"
      by (cases "filter get_is_active (map snd (health_goals w))") simp_all
    then have "fst (get_health_goals M F e w)
                 = (''Active Health Goals (Local Storage)'' @ nl @ nl)
                     @ concat (map f (filter get_is_active (map snd (health_goals w))))"
      by (simp only: res fst_conv if_False)
    then show "sublist (''  Goal ID: '' @ goal_id g @ nl) (fst (get_health_goals M F e w))"
      using listing_shows_id [OF g, of "''Active Health Goals (Local Storage)'' @ nl @ nl" F]
      by (simp only: f_def)
  }
  {
    assume "map_of (health_goals w) gid = Some g"
    then show "health_goals (snd (update_health_goal M F e gid target' current' descr w)) =
        AList.update gid
          (g\<lparr>target_value := (case target' of None \<Rightarrow> target_value g | Some t \<Rightarrow> PFloat t),
             current_value := (case current' of None \<Rightarrow> current_value g | Some c \<Rightarrow> PFloat c),
             description := (case descr of None \<Rightarrow> description g | Some d \<Rightarrow> Some d)\<rparr>)
          (health_goals w)"
      using loc
      by (simp add: update_health_goal_def update_health_goal_body_def catch_all_def Let_def
          split: option.splits)
  }
  show "if filter (\<lambda>f. date f = today e) (food_logs w) = []
       then get_food_log M F e w = (''No food logged today (Local Storage)'', w)
       else sum_calories 0 (filter (\<lambda>f. date f = today e) (food_logs w)) = Inr tc \<longrightarrow>
            prefix (''Today'' @ [CHR 0x27] @ ''s Food Log (Local Storage)'' @ nl @ nl)
              (fst (get_food_log M F e w))
            \<and> sublist (''Daily Total: '' @ str_int tc @ '' calories'')
                (fst (get_food_log M F e w))"
  proof (cases "filter (\<lambda>f. date f = today e) (food_logs w) = []")
    case True
    then show ?thesis
      using loc by (simp add: get_food_log_def get_food_log_body_def catch_all_def Let_def)
  next
    case False
    then show ?thesis
      using get_food_log_local_shape [OF loc _ False, of tc M F] by (simp only: if_False) blast
  qed
qed


lemma not_the_other_backend:
  "(connected (env_of c) \<longrightarrow>
      health_goals (snd (step M F c w)) = health_goals w
      \<and> food_logs (snd (step M F c w)) = food_logs w
      \<and> step M F c (w\<lparr>health_goals := hg, food_logs := fl\<rparr>)
          = (fst (step M F c w), (snd (step M F c w))\<lparr>health_goals := hg, food_logs := fl\<rparr>))
   \<and> (\<not> connected (env_of c) \<longrightarrow>
      remote (snd (step M F c w)) = remote w
      \<and> step M' F c (w\<lparr>remote := r'\<rparr>)
          = (fst (step M F c w), (snd (step M F c w))\<lparr>remote := r'\<rparr>))
   \<and> (connected (env_of c) \<longrightarrow> \<not> connected (env_of c') \<longrightarrow>
      health_goals (snd (step M F c w)) = health_goals w
      \<and> food_logs (snd (step M F c w)) = food_logs w
      \<and> remote (run M F [c, c'] w) = remote (snd (step M F c w)))
   \<and> (\<not> connected (env_of c) \<longrightarrow> connected (env_of c') \<longrightarrow>
      remote (snd (step M F c w)) = remote w
      \<and> health_goals (run M F [c, c'] w) = health_goals (snd (step M F c w))
      \<and> food_logs (run M F [c, c'] w) = food_logs (snd (step M F c w)))"
  using remote_keeps_local [where c = c and M = M and F = F and w = w]
    remote_ignores_local [where c = c and M = M and F = F and w = w and hg = hg and fl = fl]
    local_keeps_remote [where c = c and M = M and F = F and w = w]
    local_ignores_remote [where c = c and M = M and M' = M' and F = F and w = w and r' = r']
    local_keeps_remote [where c = c' and M = M and F = F and w = "snd (step M F c w)"]
    remote_keeps_local [where c = c' and M = M and F = F and w = "snd (step M F c w)"]
  by simp

text \<open>
  Claim C8. The backend that serves a call is decided by the answer of
  \<^verbatim>\<open>is_connected()\<close> in that call and by nothing else. The state that one call leaves
  to the next is the two in-memory structures and the remote store: no decision is kept
  in it. The theorem has three parts, each for every state, whatever calls came before.
  \<^item> The other backend is left alone. When the answer is true the call neither changes
    nor reads the in-memory structures (with other contents it returns the same text
    and leaves the same remote store); when the answer is false it neither changes nor
    reads the remote store and does not use the client. So, of two calls in a row with
    different answers, each leaves the backend of the other answer as it is.
  \<^item> When the answer is true the remote store serves the call. The remote store after
    \<^verbatim>\<open>add_health_goal\<close>, \<^verbatim>\<open>update_health_goal\<close> and \<^verbatim>\<open>add_food_log\<close> is what the
    client made of it in the calls of its methods, with the dicts of the tool;
    \<^verbatim>\<open>get_health_goals\<close> shows the goals that the client returned (each identifier is
    in the text), and \<^verbatim>\<open>get_food_log\<close> the rows that the client returned (the text
    has the heading of the remote branch and their total), or the text for no goals and
    for no food.
  \<^item> When the answer is false the in-memory structures serve the call.
    \<^verbatim>\<open>add_health_goal\<close> stores its goals in the dict, \<^verbatim>\<open>update_health_goal\<close> puts
    the changed goal under its key, \<^verbatim>\<open>add_food_log\<close> appends its entry to the list;
    \<^verbatim>\<open>get_health_goals\<close> shows the active goals of the dict and \<^verbatim>\<open>get_food_log\<close>
    the entries of the day in the list, under the headings of the in-memory branch.
\<close>

theorem backend_by_connectivity:
  "((connected (env_of c) \<longrightarrow>
      health_goals (snd (step M F c w)) = health_goals w
      \<and> food_logs (snd (step M F c w)) = food_logs w
      \<and> step M F c (w\<lparr>health_goals := hg, food_logs := fl\<rparr>)
          = (fst (step M F c w), (snd (step M F c w))\<lparr>health_goals := hg, food_logs := fl\<rparr>))
   \<and> (\<not> connected (env_of c) \<longrightarrow>
      remote (snd (step M F c w)) = remote w
      \<and> step M' F c (w\<lparr>remote := r'\<rparr>)
          = (fst (step M F c w), (snd (step M F c w))\<lparr>remote := r'\<rparr>))
   \<and> (connected (env_of c) \<longrightarrow> \<not> connected (env_of c') \<longrightarrow>
      health_goals (snd (step M F c w)) = health_goals w
      \<and> food_logs (snd (step M F c w)) = food_logs w
      \<and> remote (run M F [c, c'] w) = remote (snd (step M F c w)))
   \<and> (\<not> connected (env_of c) \<longrightarrow> connected (env_of c') \<longrightarrow>
      remote (snd (step M F c w)) = remote w
      \<and> health_goals (run M F [c, c'] w) = health_goals (snd (step M F c w))
      \<and> food_logs (run M F [c, c'] w) = food_logs (snd (step M F c w))))
   \<and> ((connected e \<longrightarrow>
      remote (snd (add_health_goal M F e gtype target descr dcg w)) =
        (case sb_add_health_goal M
                \<lparr>r_goal_type = py_lower gtype, r_target_value = target, r_current_value = 0,
                 r_description = (case descr of None \<Rightarrow> [] | Some d \<Rightarrow> d),
                 r_is_active = True\<rparr>
                (remote w) of
           (Inl x, ra) \<Rightarrow> ra
         | (Inr new, ra) \<Rightarrow>
             if truthy dcg
             then snd (sb_add_health_goal M
                    \<lparr>r_goal_type = ''daily_calories'', r_target_value = of_int (the dcg),
                     r_current_value = 0, r_description = ''Daily calorie intake target'',
                     r_is_active = True\<rparr> ra)
             else ra)
      \<and> remote (snd (update_health_goal M F e gid target' current' descr w)) =
          snd (sb_update_health_goal M gid
                 \<lparr>upd_target_value = target', upd_current_value = current',
                  upd_description = descr\<rparr> (remote w))
      \<and> remote (snd (add_food_log M F e mtype item cals w)) =
          (case sb_add_food_log M
                  \<lparr>r_meal_type = py_lower mtype, r_food_item = item, r_calories = cals,
                   r_date = today e\<rparr> (remote w) of
             (Inl x, ra) \<Rightarrow> ra
           | (Inr new, ra) \<Rightarrow>
               (case sb_get_food_logs M (today e) ra of
                  (Inl x, rb) \<Rightarrow> rb
                | (Inr rows, rb) \<Rightarrow>
                    (case sum_calories 0 rows of
                       Inl x \<Rightarrow> rb
                     | Inr tc \<Rightarrow> snd (sb_get_health_goals M rb)))))
   \<and> (connected e \<longrightarrow> sb_get_health_goals M (remote w) = (Inr goals, ra) \<longrightarrow>
      snd (get_health_goals M F e w) = w\<lparr>remote := ra\<rparr>
      \<and> (if goals = []
         then fst (get_health_goals M F e w)
                = ''No active health goals found. Add a goal to get started!''
         else prefix (''Active Health Goals'' @ nl @ nl) (fst (get_health_goals M F e w)))
      \<and> (g \<in> set goals \<longrightarrow>
           sublist (''  Goal ID: '' @ goal_id g @ nl) (fst (get_health_goals M F e w))))
   \<and> (connected e \<longrightarrow> sb_get_food_logs M (today e) (remote w) = (Inr rows, ra) \<longrightarrow>
      (if rows = []
       then get_food_log M F e w = (''No food logged today'', w\<lparr>remote := ra\<rparr>)
       else sum_calories 0 rows = Inr tc \<longrightarrow>
            prefix (''Today'' @ [CHR 0x27] @ ''s Food Log'' @ nl @ nl)
              (fst (get_food_log M F e w))
            \<and> sublist (''Daily Total: '' @ str_int tc @ '' calories'')
                (fst (get_food_log M F e w)))))
   \<and> ((\<not> connected e \<longrightarrow>
      health_goals (snd (add_health_goal M F e gtype target descr dcg w)) =
        (if truthy dcg
         then AList.update (uuid2 e)
                \<lparr>goal_id = uuid2 e, goal_type = ''daily_calories'',
                 target_value = PInt (the dcg), current_value = PFloat 0,
                 description = Some ''Daily calorie intake target'',
                 created_at = now2 e, is_active = None\<rparr>
                (AList.update (uuid1 e)
                   \<lparr>goal_id = uuid1 e, goal_type = py_lower gtype,
                    target_value = PFloat target, current_value = PFloat 0,
                    description = descr, created_at = now1 e, is_active = None\<rparr>
                   (health_goals w))
         else AList.update (uuid1 e)
                \<lparr>goal_id = uuid1 e, goal_type = py_lower gtype,
                 target_value = PFloat target, current_value = PFloat 0,
                 description = descr, created_at = now1 e, is_active = None\<rparr>
                (health_goals w))
      \<and> food_logs (snd (add_food_log M F e mtype item cals w)) =
          food_logs w @
            [\<lparr>food_id = uuid1 e, meal_type = py_lower mtype, food_item = item,
              calories = cals, date = today e, created_at' = now1 e\<rparr>]
      \<and> snd (get_health_goals M F e w) = w
      \<and> (if filter get_is_active (map snd (health_goals w)) = []
         then fst (get_health_goals M F e w)
                = ''No active health goals found. Add a goal to get started! (Local Storage)''
         else prefix (''Active Health Goals (Local Storage)'' @ nl @ nl)
                (fst (get_health_goals M F e w))))
   \<and> (\<not> connected e \<longrightarrow> g \<in> set (filter get_is_active (map snd (health_goals w))) \<longrightarrow>
      sublist (''  Goal ID: '' @ goal_id g @ nl) (fst (get_health_goals M F e w)))
   \<and> (\<not> connected e \<longrightarrow> map_of (health_goals w) gid = Some g \<longrightarrow>
      health_goals (snd (update_health_goal M F e gid target' current' descr w)) =
        AList.update gid
          (g\<lparr>target_value := (case target' of None \<Rightarrow> target_value g | Some t \<Rightarrow> PFloat t),
             current_value := (case current' of None \<Rightarrow> current_value g | Some c \<Rightarrow> PFloat c),
             description := (case descr of None \<Rightarrow> description g | Some d \<Rightarrow> Some d)\<rparr>)
          (health_goals w))
   \<and> (\<not> connected e \<longrightarrow>
      (if filter (\<lambda>f. date f = today e) (food_logs w) = []
       then get_food_log M F e w = (''No food logged today (Local Storage)'', w)
       else sum_calories 0 (filter (\<lambda>f. date f = today e) (food_logs w)) = Inr tc \<longrightarrow>
            prefix (''Today'' @ [CHR 0x27] @ ''s Food Log (Local Storage)'' @ nl @ nl)
              (fst (get_food_log M F e w))
            \<and> sublist (''Daily Total: '' @ str_int tc @ '' calories'')
                (fst (get_food_log M F e w)))))"
  by (rule conjI [OF not_the_other_backend conjI [OF served_by_remote served_by_local]])

theorem backend_by_connectivity_witness:
  "connected remote_env \<and> \<not> connected (local_env ''f2'' ''c2'')
   \<and> remote (snd (add_food_log table_manager one_decimal remote_env
                     ''Dinner'' ''soup'' (Some 200) shop))
       = \<lparr>goal_rows = [weight_row],
          food_rows = [feast_row,
            \<lparr>food_id = ''f1'', meal_type = ''dinner'', food_item = ''soup'',
             calories = Some 200, date = ''2024-05-01'',
             created_at' = ''2024-05-01T08:00:00''\<rparr>]\<rparr>
   \<and> food_logs (snd (step table_manager one_decimal
                         (AddFoodLog remote_env ''Dinner'' ''soup'' (Some 200)) shop))
       = food_logs shop
   \<and> food_logs (snd (add_food_log table_manager one_decimal (local_env ''f2'' ''c2'')
                        ''Dinner'' ''soup'' (Some 200) shop))
       = [salad,
          \<lparr>food_id = ''f2'', meal_type = ''dinner'', food_item = ''soup'',
           calories = Some 200, date = ''2024-05-01'',
           created_at' = ''2024-05-01T08:00:00''\<rparr>]
   \<and> remote (snd (step table_manager one_decimal
                      (AddFoodLog (local_env ''f2'' ''c2'') ''Dinner'' ''soup'' (Some 200)) shop))
       = remote shop
   \<and> remote (run table_manager one_decimal
                 [AddFoodLog remote_env ''Dinner'' ''soup'' (Some 200),
                  AddFoodLog (local_env ''f2'' ''c2'') ''Dinner'' ''soup'' (Some 200)] shop)
       = remote (snd (step table_manager one_decimal
                        (AddFoodLog remote_env ''Dinner'' ''soup'' (Some 200)) shop))
   \<and> prefix (''Today'' @ [CHR 0x27] @ ''s Food Log'' @ nl @ nl)
        (fst (get_food_log table_manager one_decimal remote_env shop))
   \<and> sublist ''Daily Total: 2500 calories''
        (fst (get_food_log table_manager one_decimal remote_env shop))
   \<and> prefix (''Today'' @ [CHR 0x27] @ ''s Food Log (Local Storage)'' @ nl @ nl)
        (fst (get_food_log table_manager one_decimal (local_env ''f2'' ''c2'') shop))
   \<and> sublist ''Daily Total: 300 calories''
        (fst (get_food_log table_manager one_decimal (local_env ''f2'' ''c2'') shop))
   \<and> sublist (''  Goal ID: r1'' @ nl)
        (fst (get_health_goals table_manager one_decimal remote_env shop))
   \<and> fst (get_health_goals table_manager one_decimal (local_env ''f2'' ''c2'') shop)
       = ''No active health goals found. Add a goal to get started! (Local Storage)''
   \<and> health_goals (snd (update_health_goal table_manager one_decimal (local_env ''f2'' ''c2'')
                           ''g1'' None (Some 30) None shop))
       = [(''g1'', paused\<lparr>current_value := PFloat 30\<rparr>)]
   \<and> remote (snd (update_health_goal table_manager one_decimal remote_env
                     ''r1'' None (Some 30) None shop))
       = \<lparr>goal_rows = [weight_row\<lparr>current_value := PFloat 30\<rparr>], food_rows = [feast_row]\<rparr>
   \<and> health_goals (snd (add_health_goal table_manager one_decimal (local_env ''f2'' ''c2'')
                           ''Steps'' 10000 None None shop))
       = [(''g1'', paused),
          (''f2'', \<lparr>goal_id = ''f2'', goal_type = ''steps'', target_value = PFloat 10000,
                    current_value = PFloat 0, description = None,
                    created_at = ''2024-05-01T08:00:00'', is_active = None\<rparr>)]
   \<and> remote (snd (add_health_goal table_manager one_decimal remote_env
                     ''Steps'' 10000 None None shop))
       = \<lparr>goal_rows = [weight_row,
            \<lparr>goal_id = ''r1'', goal_type = ''steps'', target_value = PFloat 10000,
             current_value = PFloat 0, description = Some [],
             created_at = ''2024-05-01T08:00:00'', is_active = Some True\<rparr>],
          food_rows = [feast_row]\<rparr>"
proof -
  define rc where "rc = AddFoodLog remote_env ''Dinner'' ''soup'' (Some 200)"
  define lc where "lc = AddFoodLog (local_env ''f2'' ''c2'') ''Dinner'' ''soup'' (Some 200)"
  have con: "connected remote_env" and loc: "\<not> connected (local_env ''f2'' ''c2'')"
    and con': "connected (env_of rc)" and loc': "\<not> connected (env_of lc)"
    by (simp_all add: local_env_def remote_env_def rc_def lc_def)
  have env: "today remote_env = ''2024-05-01''" "today (local_env ''f2'' ''c2'') = ''2024-05-01''"
    "uuid1 (local_env ''f2'' ''c2'') = ''f2''"
    "now1 (local_env ''f2'' ''c2'') = ''2024-05-01T08:00:00''"
    by (simp_all add: local_env_def remote_env_def)
  have low: "py_lower ''Dinner'' = ''dinner''" "py_lower ''Steps'' = ''steps''"
    by (simp_all add: py_lower_def to_lower_def upper_letters_def lower_letters_def)
  have num: "str_int 2500 = ''2500''" "str_int 300 = ''300''"
    by (simp_all add: str_int_def)
  have sh: "health_goals shop = [(''g1'', paused)]" "food_logs shop = [salad]"
    "remote shop = \<lparr>goal_rows = [weight_row], food_rows = [feast_row]\<rparr>"
    by (simp_all add: shop_def)
  have inactive: "filter get_is_active (map snd (health_goals shop)) = []"
    by (simp add: sh paused_def get_is_active_def)
  have rows: "sb_get_food_logs table_manager (today remote_env) (remote shop)
                = (Inr [feast_row], remote shop)"
    by (simp add: table_manager_def sh env feast_row_def)
  have rsum: "sum_calories 0 [feast_row] = Inr 2500"
    by (simp add: feast_row_def)
  have lrows: "filter (\<lambda>f. date f = today (local_env ''f2'' ''c2'')) (food_logs shop) = [salad]"
    by (simp add: sh env salad_def)
  have lsum: "sum_calories 0 [salad] = Inr 300"
    by (simp add: salad_def)
  have goals: "sb_get_health_goals table_manager (remote shop) = (Inr [weight_row], remote shop)"
    by (simp add: table_manager_def sh weight_row_def get_is_active_def)
  have gid: "goal_id weight_row = ''r1''"
    by (simp add: weight_row_def)
  have found: "map_of (health_goals shop) ''g1'' = Some paused"
    by (simp add: sh)
  have w1: "remote (snd (add_food_log table_manager one_decimal remote_env
                     ''Dinner'' ''soup'' (Some 200) shop))
       = \<lparr>goal_rows = [weight_row],
          food_rows = [feast_row,
            \<lparr>food_id = ''f1'', meal_type = ''dinner'', food_item = ''soup'',
             calories = Some 200, date = ''2024-05-01'',
             created_at' = ''2024-05-01T08:00:00''\<rparr>]\<rparr>"
    using backend_by_connectivity [where M = table_manager and M' = table_manager
        and F = one_decimal and w = shop and r' = "remote shop" and hg = "health_goals shop"
        and fl = "food_logs shop" and e = remote_env and c = rc and c' = lc
        and mtype = "''Dinner''" and item = "''soup''" and cals = "Some 200",
        THEN conjunct2, THEN conjunct1, THEN conjunct1, rule_format, OF con,
        THEN conjunct2, THEN conjunct2]
    by (simp add: table_manager_def sh env low feast_row_def)
  have w2: "food_logs (snd (step table_manager one_decimal rc shop)) = food_logs shop"
    and w5: "remote (run table_manager one_decimal [rc, lc] shop)
               = remote (snd (step table_manager one_decimal rc shop))"
    using backend_by_connectivity [where M = table_manager and M' = table_manager
        and F = one_decimal and w = shop and r' = "remote shop" and hg = "health_goals shop"
        and fl = "food_logs shop" and e = remote_env and c = rc and c' = lc,
        THEN conjunct1] con' loc'
    by simp_all
  have w3: "food_logs (snd (add_food_log table_manager one_decimal (local_env ''f2'' ''c2'')
                        ''Dinner'' ''soup'' (Some 200) shop))
       = [salad,
          \<lparr>food_id = ''f2'', meal_type = ''dinner'', food_item = ''soup'',
           calories = Some 200, date = ''2024-05-01'',
           created_at' = ''2024-05-01T08:00:00''\<rparr>]"
    using backend_by_connectivity [where M = table_manager and M' = table_manager
        and F = one_decimal and w = shop and r' = "remote shop" and hg = "health_goals shop"
        and fl = "food_logs shop" and e = "local_env ''f2'' ''c2''" and c = lc and c' = rc
        and mtype = "''Dinner''" and item = "''soup''" and cals = "Some 200",
        THEN conjunct2, THEN conjunct2, THEN conjunct1, rule_format, OF loc,
        THEN conjunct2, THEN conjunct1]
    by (simp add: sh env low)
  have w4: "remote (snd (step table_manager one_decimal lc shop)) = remote shop"
    using backend_by_connectivity [where M = table_manager and M' = table_manager
        and F = one_decimal and w = shop and r' = "remote shop" and hg = "health_goals shop"
        and fl = "food_logs shop" and e = "local_env ''f2'' ''c2''" and c = lc and c' = rc,
        THEN conjunct1] loc'
    by simp
  have w6: "prefix (''Today'' @ [CHR 0x27] @ ''s Food Log'' @ nl @ nl)
        (fst (get_food_log table_manager one_decimal remote_env shop))
      \<and> sublist ''Daily Total: 2500 calories''
        (fst (get_food_log table_manager one_decimal remote_env shop))"
    using backend_by_connectivity [where M = table_manager and M' = table_manager
        and F = one_decimal and w = shop and r' = "remote shop" and hg = "health_goals shop"
        and fl = "food_logs shop" and e = remote_env and c = rc and c' = lc
        and tc = 2500,
        THEN conjunct2, THEN conjunct1, THEN conjunct2, THEN conjunct2, rule_format,
        OF con rows] rsum
    by (simp add: num)
  have w7: "prefix (''Today'' @ [CHR 0x27] @ ''s Food Log (Local Storage)'' @ nl @ nl)
        (fst (get_food_log table_manager one_decimal (local_env ''f2'' ''c2'') shop))
      \<and> sublist ''Daily Total: 300 calories''
        (fst (get_food_log table_manager one_decimal (local_env ''f2'' ''c2'') shop))"
    using backend_by_connectivity [where M = table_manager and M' = table_manager
        and F = one_decimal and w = shop and r' = "remote shop" and hg = "health_goals shop"
        and fl = "food_logs shop" and e = "local_env ''f2'' ''c2''" and c = lc and c' = rc
        and tc = 300,
        THEN conjunct2, THEN conjunct2, THEN conjunct2, THEN conjunct2, THEN conjunct2,
        rule_format, OF loc] lsum
    by (simp add: num lrows)
  have w8: "sublist (''  Goal ID: r1'' @ nl)
        (fst (get_health_goals table_manager one_decimal remote_env shop))"
    using backend_by_connectivity [where M = table_manager and M' = table_manager
        and F = one_decimal and w = shop and r' = "remote shop" and hg = "health_goals shop"
        and fl = "food_logs shop" and e = remote_env and c = rc and c' = lc
        and g = weight_row,
        THEN conjunct2, THEN conjunct1, THEN conjunct2, THEN conjunct1, rule_format,
        OF con goals, THEN conjunct2, THEN conjunct2]
    by (simp add: gid)
  have w9: "fst (get_health_goals table_manager one_decimal (local_env ''f2'' ''c2'') shop)
       = ''No active health goals found. Add a goal to get started! (Local Storage)''"
    using backend_by_connectivity [where M = table_manager and M' = table_manager
        and F = one_decimal and w = shop and r' = "remote shop" and hg = "health_goals shop"
        and fl = "food_logs shop" and e = "local_env ''f2'' ''c2''" and c = lc and c' = rc,
        THEN conjunct2, THEN conjunct2, THEN conjunct1, rule_format, OF loc,
        THEN conjunct2, THEN conjunct2, THEN conjunct2]
    by (simp add: inactive)
  have w10: "health_goals (snd (update_health_goal table_manager one_decimal
                                  (local_env ''f2'' ''c2'') ''g1'' None (Some 30) None shop))
       = [(''g1'', paused\<lparr>current_value := PFloat 30\<rparr>)]"
    using backend_by_connectivity [where M = table_manager and M' = table_manager
        and F = one_decimal and w = shop and r' = "remote shop" and hg = "health_goals shop"
        and fl = "food_logs shop" and e = "local_env ''f2'' ''c2''" and c = lc and c' = rc
        and gid = "''g1''" and g = paused and target' = None and current' = "Some 30"
        and descr = None,
        THEN conjunct2, THEN conjunct2, THEN conjunct2, THEN conjunct2, THEN conjunct1,
        rule_format, OF loc found]
    by (simp add: sh)
  have w11: "remote (snd (update_health_goal table_manager one_decimal remote_env
                     ''r1'' None (Some 30) None shop))
       = \<lparr>goal_rows = [weight_row\<lparr>current_value := PFloat 30\<rparr>], food_rows = [feast_row]\<rparr>"
    using backend_by_connectivity [where M = table_manager and M' = table_manager
        and F = one_decimal and w = shop and r' = "remote shop" and hg = "health_goals shop"
        and fl = "food_logs shop" and e = remote_env and c = rc and c' = lc
        and gid = "''r1''" and target' = None and current' = "Some 30" and descr = None,
        THEN conjunct2, THEN conjunct1, THEN conjunct1, rule_format, OF con,
        THEN conjunct2, THEN conjunct1]
    by (simp add: table_manager_def sh weight_row_def)
  have w12: "health_goals (snd (add_health_goal table_manager one_decimal
                                  (local_env ''f2'' ''c2'') ''Steps'' 10000 None None shop))
       = [(''g1'', paused),
          (''f2'', \<lparr>goal_id = ''f2'', goal_type = ''steps'', target_value = PFloat 10000,
                    current_value = PFloat 0, description = None,
                    created_at = ''2024-05-01T08:00:00'', is_active = None\<rparr>)]"
    using backend_by_connectivity [where M = table_manager and M' = table_manager
        and F = one_decimal and w = shop and r' = "remote shop" and hg = "health_goals shop"
        and fl = "food_logs shop" and e = "local_env ''f2'' ''c2''" and c = lc and c' = rc
        and gtype = "''Steps''" and target = 10000 and descr = None and dcg = None,
        THEN conjunct2, THEN conjunct2, THEN conjunct1, rule_format, OF loc,
        THEN conjunct1]
    by (simp add: sh env low)
  have w13: "remote (snd (add_health_goal table_manager one_decimal remote_env
                     ''Steps'' 10000 None None shop))
       = \<lparr>goal_rows = [weight_row,
            \<lparr>goal_id = ''r1'', goal_type = ''steps'', target_value = PFloat 10000,
             current_value = PFloat 0, description = Some [],
             created_at = ''2024-05-01T08:00:00'', is_active = Some True\<rparr>],
          food_rows = [feast_row]\<rparr>"
    using backend_by_connectivity [where M = table_manager and M' = table_manager
        and F = one_decimal and w = shop and r' = "remote shop" and hg = "health_goals shop"
        and fl = "food_logs shop" and e = remote_env and c = rc and c' = lc
        and gtype = "''Steps''" and target = 10000 and descr = None and dcg = None,
        THEN conjunct2, THEN conjunct1, THEN conjunct1, rule_format, OF con,
        THEN conjunct1]
    by (simp add: table_manager_def sh low)
  from con loc w1 w2 w3 w4 w5 w6 w7 w8 w9 w10 w11 w12 w13 show ?thesis
    unfolding rc_def lc_def by blast
qed

subsection \<open>Failures of the remote store\<close>

text \<open>
  Claim C7, as stated: in every operation, when the remote branch is taken and a call
  to the remote store raises, the operation returns an error text. The goal lookup of
  \<^verbatim>\<open>add_food_log\<close> and \<^verbatim>\<open>get_food_log\<close> stands in a \<^verbatim>\<open>try\<close> of its own whose
  handler is \<^verbatim>\<open>pass\<close>: when \<^verbatim>\<open>get_health_goals\<close> of the client raises there, both
  tools return the text of the food log, with no mention of the failure.
\<close>

theorem remote_goal_lookup_failure:
  "connected remote_env
   \<and> sb_get_health_goals canned_manager no_goals
       = (Inl (ClientError ''connection lost''), no_goals)
   \<and> add_food_log canned_manager one_decimal remote_env ''dinner'' ''feast'' (Some 2500)
        (start\<lparr>remote := no_goals\<rparr>)
       = (''Food logged successfully!'' @ nl @ nl @ ''Meal: Dinner'' @ nl @ ''Food: feast'' @ nl
            @ ''Calories: 2500'' @ nl @ nl @ ''Today'' @ [CHR 0x27]
            @ ''s Total Calories: 2500'',
          start\<lparr>remote := no_goals\<rparr>)
   \<and> get_food_log canned_manager one_decimal remote_env (start\<lparr>remote := no_goals\<rparr>)
       = (''Today'' @ [CHR 0x27] @ ''s Food Log'' @ nl @ nl @ ''Dinner'' @ nl
            @ ''  feast (2500 cal)'' @ nl @ ''  Meal Total: 2500 calories'' @ nl @ nl
            @ ''Daily Total: 2500 calories'',
          start\<lparr>remote := no_goals\<rparr>)"
  by (simp add: no_goals_def fed_def feast_row_def tool_defs sample_defs Let_def str_defs
      food_line_def)

text \<open>
  Claim C7, amended. When the remote branch is taken:
  \<^item> a call of the client that raises, other than the goal lookup of the two food log
    tools, makes the tool return the text \<^verbatim>\<open>Error <doing X>: <message>\<close>, for each of
    the seven places where the five tools call the client;
  \<^item> when the goal lookup of \<^verbatim>\<open>add_food_log\<close> or \<^verbatim>\<open>get_food_log\<close> raises, the tool
    returns the text of the food log without the lines about the goal;
  \<^item> in all cases the result is a text (the tools are total functions into texts), and
    the in-memory structures are left as they were: nothing is written to them in the
    place of the remote store.
\<close>

theorem remote_failure:
  "(connected e \<longrightarrow>
      sb_add_health_goal M
        \<lparr>r_goal_type = py_lower gtype, r_target_value = target, r_current_value = 0,
         r_description = (case descr of None \<Rightarrow> [] | Some d \<Rightarrow> d), r_is_active = True\<rparr>
        (remote w) = (Inl x, ra) \<longrightarrow>
      add_health_goal M F e gtype target descr dcg w
        = (''Error adding health goal: '' @ str_exn x, w\<lparr>remote := ra\<rparr>))
   \<and> (connected e \<longrightarrow> n \<noteq> 0 \<longrightarrow>
      sb_add_health_goal M
        \<lparr>r_goal_type = py_lower gtype, r_target_value = target, r_current_value = 0,
         r_description = (case descr of None \<Rightarrow> [] | Some d \<Rightarrow> d), r_is_active = True\<rparr>
        (remote w) = (Inr gid, ra) \<longrightarrow>
      sb_add_health_goal M
        \<lparr>r_goal_type = ''daily_calories'', r_target_value = of_int n, r_current_value = 0,
         r_description = ''Daily calorie intake target'', r_is_active = True\<rparr>
        ra = (Inl x, rb) \<longrightarrow>
      add_health_goal M F e gtype target descr (Some n) w
        = (''Error adding health goal: '' @ str_exn x, w\<lparr>remote := rb\<rparr>))
   \<and> (connected e \<longrightarrow>
      sb_update_health_goal M uid
        \<lparr>upd_target_value = target', upd_current_value = current', upd_description = descr\<rparr>
        (remote w) = (Inl x, ra) \<longrightarrow>
      update_health_goal M F e uid target' current' descr w
        = (''Error updating health goal: '' @ str_exn x, w\<lparr>remote := ra\<rparr>))
   \<and> (connected e \<longrightarrow> sb_get_health_goals M (remote w) = (Inl x, ra) \<longrightarrow>
      get_health_goals M F e w
        = (''Error getting health goals: '' @ str_exn x, w\<lparr>remote := ra\<rparr>))
   \<and> (connected e \<longrightarrow>
      sb_add_food_log M
        \<lparr>r_meal_type = py_lower mtype, r_food_item = item, r_calories = cals,
         r_date = today e\<rparr> (remote w) = (Inl x, ra) \<longrightarrow>
      add_food_log M F e mtype item cals w
        = (''Error adding food log: '' @ str_exn x, w\<lparr>remote := ra\<rparr>))
   \<and> (connected e \<longrightarrow>
      sb_add_food_log M
        \<lparr>r_meal_type = py_lower mtype, r_food_item = item, r_calories = cals,
         r_date = today e\<rparr> (remote w) = (Inr fid, ra) \<longrightarrow>
      sb_get_food_logs M (today e) ra = (Inl x, rb) \<longrightarrow>
      add_food_log M F e mtype item cals w
        = (''Error adding food log: '' @ str_exn x, w\<lparr>remote := rb\<rparr>))
   \<and> (connected e \<longrightarrow> sb_get_food_logs M (today e) (remote w) = (Inl x, ra) \<longrightarrow>
      get_food_log M F e w
        = (''Error getting food log: '' @ str_exn x, w\<lparr>remote := ra\<rparr>))
   \<and> (connected e \<longrightarrow>
      sb_add_food_log M
        \<lparr>r_meal_type = py_lower mtype, r_food_item = item, r_calories = cals,
         r_date = today e\<rparr> (remote w) = (Inr fid, ra) \<longrightarrow>
      sb_get_food_logs M (today e) ra = (Inr rows, rb) \<longrightarrow>
      sum_calories 0 rows = Inr tc \<longrightarrow>
      sb_get_health_goals M rb = (Inl x, rc) \<longrightarrow>
      add_food_log M F e mtype item cals w
        = (''Food logged successfully!'' @ nl @ nl @ ''Meal: '' @ py_title mtype @ nl
             @ ''Food: '' @ item @ nl
             @ (if truthy cals then ''Calories: '' @ str_int (the cals) @ nl else [])
             @ nl @ ''Today'' @ [CHR 0x27] @ ''s Total Calories: '' @ str_int tc,
           w\<lparr>remote := rc\<rparr>))
   \<and> (connected e \<longrightarrow>
      sb_get_food_logs M (today e) (remote w) = (Inr rows, rb) \<longrightarrow> rows \<noteq> [] \<longrightarrow>
      meals_loop (group_meals [] rows) (''Today'' @ [CHR 0x27] @ ''s Food Log'' @ nl @ nl) 0
        = Inr (res, tc) \<longrightarrow>
      sb_get_health_goals M rb = (Inl x, rc) \<longrightarrow>
      get_food_log M F e w
        = (res @ ''Daily Total: '' @ str_int tc @ '' calories'', w\<lparr>remote := rc\<rparr>))
   \<and> (connected (env_of c) \<longrightarrow>
      health_goals (snd (step M F c w)) = health_goals w
      \<and> food_logs (snd (step M F c w)) = food_logs w)"
proof (intro conjI impI)
  assume "connected (env_of c)"
  then show "health_goals (snd (step M F c w)) = health_goals w"
    and "food_logs (snd (step M F c w)) = food_logs w"
    by (simp_all add: remote_keeps_local)
qed (simp_all add: tool_defs Let_def)

theorem remote_failure_witness:
  "connected remote_env
   \<and> sb_get_health_goals canned_manager down = (Inl (ClientError ''connection lost''), down)
   \<and> add_health_goal canned_manager one_decimal remote_env ''Weight'' 70 None None start
       = (''Error adding health goal: connection lost'', start)
   \<and> update_health_goal canned_manager one_decimal remote_env ''r1'' None (Some 5) None start
       = (''Error updating health goal: connection lost'', start)
   \<and> get_health_goals canned_manager one_decimal remote_env start
       = (''Error getting health goals: connection lost'', start)
   \<and> add_food_log canned_manager one_decimal remote_env ''dinner'' ''feast'' (Some 2500) start
       = (''Error adding food log: connection lost'', start)
   \<and> get_food_log canned_manager one_decimal remote_env start
       = (''Error getting food log: connection lost'', start)
   \<and> add_health_goal canned_manager one_decimal remote_env ''Weight'' 70 None (Some 2000)
        (start\<lparr>remote := down\<lparr>add_goal_resp := first_only\<rparr>\<rparr>)
       = (''Error adding health goal: quota exceeded'',
          start\<lparr>remote := down\<lparr>add_goal_resp := first_only\<rparr>\<rparr>)
   \<and> add_food_log canned_manager one_decimal remote_env ''dinner'' ''feast'' (Some 2500)
        (start\<lparr>remote := down\<lparr>add_food_resp := Inr ''f9''\<rparr>\<rparr>)
       = (''Error adding food log: connection lost'',
          start\<lparr>remote := down\<lparr>add_food_resp := Inr ''f9''\<rparr>\<rparr>)
   \<and> add_food_log canned_manager one_decimal remote_env ''dinner'' ''feast'' (Some 2500)
        (start\<lparr>remote := no_goals\<rparr>)
       = (''Food logged successfully!'' @ nl @ nl @ ''Meal: Dinner'' @ nl @ ''Food: feast'' @ nl
            @ ''Calories: 2500'' @ nl @ nl @ ''Today'' @ [CHR 0x27]
            @ ''s Total Calories: 2500'',
          start\<lparr>remote := no_goals\<rparr>)
   \<and> get_food_log canned_manager one_decimal remote_env (start\<lparr>remote := no_goals\<rparr>)
       = ((''Today'' @ [CHR 0x27] @ ''s Food Log'' @ nl @ nl @ ''Dinner'' @ nl
             @ ''  feast (2500 cal)'' @ nl @ ''  Meal Total: 2500 calories'' @ nl @ nl)
            @ ''Daily Total: 2500 calories'',
          start\<lparr>remote := no_goals\<rparr>)
   \<and> health_goals (snd (step canned_manager one_decimal (GetFoodLog remote_env) mixed))
       = health_goals mixed
   \<and> food_logs (snd (step canned_manager one_decimal (GetFoodLog remote_env) mixed))
       = food_logs mixed"
proof -
  define lost where "lost = ClientError ''connection lost''"
  define half where "half = down\<lparr>add_goal_resp := first_only\<rparr>"
  define logged where "logged = down\<lparr>add_food_resp := Inr ''f9''\<rparr>"
  have con: "connected remote_env" and con': "connected (env_of (GetFoodLog remote_env))"
    by (simp_all add: remote_env_def)
  have day: "today remote_env = ''2024-05-01''"
    by (simp add: remote_env_def)
  have msg: "str_exn lost = ''connection lost''"
    "str_exn (ClientError ''quota exceeded'') = ''quota exceeded''"
    by (simp_all add: lost_def)
  have st: "start\<lparr>remote := down\<rparr> = start" "remote start = down"
    by (simp_all add: start_def)
  have g0: "sb_get_health_goals canned_manager down = (Inl lost, down)"
    by (simp add: canned_manager_def down_def lost_def)
  have a0: "sb_add_health_goal canned_manager d down = (Inl lost, down)" for d
    by (simp add: canned_manager_def down_def lost_def)
  have u0: "sb_update_health_goal canned_manager i u down = (Inl lost, down)" for i u
    by (simp add: canned_manager_def down_def lost_def)
  have f0: "sb_add_food_log canned_manager d down = (Inl lost, down)" for d
    by (simp add: canned_manager_def down_def lost_def)
  have l0: "sb_get_food_logs canned_manager t down = (Inl lost, down)" for t
    by (simp add: canned_manager_def down_def lost_def)
  have a1: "sb_add_health_goal canned_manager
              \<lparr>r_goal_type = py_lower ''Weight'', r_target_value = 70, r_current_value = 0,
               r_description = (case None of None \<Rightarrow> [] | Some d \<Rightarrow> d), r_is_active = True\<rparr>
              half = (Inr ''r1'', half)"
    by (simp add: canned_manager_def down_def half_def first_only_def py_lower_def
        to_lower_def upper_letters_def lower_letters_def)
  have a2: "sb_add_health_goal canned_manager
              \<lparr>r_goal_type = ''daily_calories'', r_target_value = of_int 2000,
               r_current_value = 0, r_description = ''Daily calorie intake target'',
               r_is_active = True\<rparr>
              half = (Inl (ClientError ''quota exceeded''), half)"
    by (simp add: canned_manager_def down_def half_def first_only_def)
  have f1: "sb_add_food_log canned_manager d logged = (Inr ''f9'', logged)" for d
    by (simp add: canned_manager_def down_def logged_def)
  have l1: "sb_get_food_logs canned_manager t logged = (Inl lost, logged)" for t
    by (simp add: canned_manager_def down_def logged_def lost_def)
  have f2: "sb_add_food_log canned_manager d no_goals = (Inr ''f9'', no_goals)" for d
    by (simp add: canned_manager_def no_goals_def fed_def down_def)
  have l2: "sb_get_food_logs canned_manager t no_goals = (Inr [feast_row], no_goals)" for t
    by (simp add: canned_manager_def no_goals_def fed_def down_def)
  have g2: "sb_get_health_goals canned_manager no_goals = (Inl lost, no_goals)"
    by (simp add: canned_manager_def no_goals_def fed_def down_def lost_def)
  have sm: "sum_calories 0 [feast_row] = Inr 2500"
    by (simp add: feast_row_def)
  have ml: "meals_loop (group_meals [] [feast_row])
              (''Today'' @ [CHR 0x27] @ ''s Food Log'' @ nl @ nl) 0
            = Inr (''Today'' @ [CHR 0x27] @ ''s Food Log'' @ nl @ nl @ ''Dinner'' @ nl
                     @ ''  feast (2500 cal)'' @ nl @ ''  Meal Total: 2500 calories'' @ nl @ nl,
                   2500)"
    by (simp add: feast_row_def food_line_def str_defs)
  have t1: "py_title ''dinner'' = ''Dinner''" and t2: "str_int 2500 = ''2500''"
    by (simp_all add: str_defs)
  note T = remote_failure [where M = canned_manager and F = one_decimal and e = remote_env]
  have c1: "add_health_goal canned_manager one_decimal remote_env ''Weight'' 70 None None start
       = (''Error adding health goal: connection lost'', start)"
    using T [where w = start and x = lost and ra = down and gtype = "''Weight''"
        and target = 70 and descr = None and dcg = None] con a0
    by (simp add: st msg)
  have c2: "update_health_goal canned_manager one_decimal remote_env ''r1'' None (Some 5) None
        start = (''Error updating health goal: connection lost'', start)"
    using T [where w = start and x = lost and ra = down and uid = "''r1''"
        and target' = None and current' = "Some 5" and descr = None] con u0
    by (simp add: st msg)
  have c3: "get_health_goals canned_manager one_decimal remote_env start
       = (''Error getting health goals: connection lost'', start)"
    using T [where w = start and x = lost and ra = down] con g0
    by (simp add: st msg)
  have c4: "add_food_log canned_manager one_decimal remote_env ''dinner'' ''feast'' (Some 2500)
        start = (''Error adding food log: connection lost'', start)"
    using T [where w = start and x = lost and ra = down and mtype = "''dinner''"
        and item = "''feast''" and cals = "Some 2500"] con f0
    by (simp add: st msg)
  have c5: "get_food_log canned_manager one_decimal remote_env start
       = (''Error getting food log: connection lost'', start)"
    using T [where w = start and x = lost and ra = down] con l0
    by (simp add: st msg)
  have c6: "add_health_goal canned_manager one_decimal remote_env ''Weight'' 70 None (Some 2000)
        (start\<lparr>remote := half\<rparr>)
       = (''Error adding health goal: quota exceeded'', start\<lparr>remote := half\<rparr>)"
    using T [where w = "start\<lparr>remote := half\<rparr>" and x = "ClientError ''quota exceeded''"
        and ra = half and rb = half and gtype = "''Weight''" and target = 70
        and descr = None and n = 2000 and gid = "''r1''"] con a1 a2
    by (simp add: msg)
  have c7: "add_food_log canned_manager one_decimal remote_env ''dinner'' ''feast'' (Some 2500)
        (start\<lparr>remote := logged\<rparr>)
       = (''Error adding food log: connection lost'', start\<lparr>remote := logged\<rparr>)"
    using T [where w = "start\<lparr>remote := logged\<rparr>" and x = lost and ra = logged
        and rb = logged and mtype = "''dinner''" and item = "''feast''"
        and cals = "Some 2500" and fid = "''f9''"] con f1 l1
    by (simp add: msg)
  have c8: "add_food_log canned_manager one_decimal remote_env ''dinner'' ''feast'' (Some 2500)
        (start\<lparr>remote := no_goals\<rparr>)
       = (''Food logged successfully!'' @ nl @ nl @ ''Meal: Dinner'' @ nl @ ''Food: feast'' @ nl
            @ ''Calories: 2500'' @ nl @ nl @ ''Today'' @ [CHR 0x27]
            @ ''s Total Calories: 2500'',
          start\<lparr>remote := no_goals\<rparr>)"
    using T [where w = "start\<lparr>remote := no_goals\<rparr>" and x = lost and ra = no_goals
        and rb = no_goals and rc = no_goals and mtype = "''dinner''" and item = "''feast''"
        and cals = "Some 2500" and fid = "''f9''" and rows = "[feast_row]" and tc = 2500]
      con f2 l2 g2 sm
    by (simp add: t1 t2)
  have c9: "get_food_log canned_manager one_decimal remote_env (start\<lparr>remote := no_goals\<rparr>)
       = ((''Today'' @ [CHR 0x27] @ ''s Food Log'' @ nl @ nl @ ''Dinner'' @ nl
             @ ''  feast (2500 cal)'' @ nl @ ''  Meal Total: 2500 calories'' @ nl @ nl)
            @ ''Daily Total: 2500 calories'',
          start\<lparr>remote := no_goals\<rparr>)"
    using T [where w = "start\<lparr>remote := no_goals\<rparr>" and x = lost
        and rb = no_goals and rc = no_goals and rows = "[feast_row]" and tc = 2500
        and res = "''Today'' @ [CHR 0x27] @ ''s Food Log'' @ nl @ nl @ ''Dinner'' @ nl
             @ ''  feast (2500 cal)'' @ nl @ ''  Meal Total: 2500 calories'' @ nl @ nl"]
      con l2 g2 ml
    by (simp add: t2)
  have c10: "health_goals (snd (step canned_manager one_decimal (GetFoodLog remote_env) mixed))
       = health_goals mixed
     \<and> food_logs (snd (step canned_manager one_decimal (GetFoodLog remote_env) mixed))
       = food_logs mixed"
    using T [where c = "GetFoodLog remote_env" and w = mixed] con' by simp
  from con g0 c1 c2 c3 c4 c5 c6 c7 c8 c9 c10 show ?thesis
    unfolding lost_def half_def logged_def by blast
qed

subsection \<open>What the tools leave as it is\<close>

lemma step_keeps_food_logs: "prefix (food_logs w) (food_logs (snd (step M F c w)))"
  by (cases c)
    (simp_all add: tool_defs Let_def split: prod.splits sum.splits option.splits)

lemma add_health_goal_keeps_goal:
  assumes "fresh_call (AddHealthGoal e gtype target descr dcg) w"
    and "map_of (health_goals w) k = Some g"
  shows "map_of (health_goals (snd (add_health_goal M F e gtype target descr dcg w))) k = Some g"
proof (cases "connected e")
  case True
  then show ?thesis
    using assms(2) remote_keeps_local [of "AddHealthGoal e gtype target descr dcg" M F w]
    by simp
next
  case False
  from assms False have k1: "k \<noteq> uuid1 e"
    by auto
  from assms False have k2: "truthy dcg \<Longrightarrow> k \<noteq> uuid2 e"
    by auto
  show ?thesis
    using assms(2) k1 k2
    by (simp add: add_health_goal_local_store [OF False] update_conv')
qed

lemma update_health_goal_keeps_flag:
  assumes "map_of (health_goals w) k = Some g"
  shows "\<exists>g'. map_of (health_goals (snd (update_health_goal M F e gid target current descr w))) k
                 = Some g' \<and> is_active g' = is_active g"
proof (cases "connected e")
  case True
  then show ?thesis
    using assms remote_keeps_local [of "UpdateHealthGoal e gid target current descr" M F w]
    by simp
next
  case False
  then show ?thesis
    using assms
    by (auto simp: update_health_goal_def update_health_goal_body_def catch_all_def Let_def
        update_conv' split: option.splits)
qed

lemma food_tools_keep_goals:
  "health_goals (snd (add_food_log M F e mtype item cals w)) = health_goals w"
  "health_goals (snd (get_food_log M F e w)) = health_goals w"
  "health_goals (snd (get_health_goals M F e w)) = health_goals w"
proof -
  show "health_goals (snd (add_food_log M F e mtype item cals w)) = health_goals w"
  proof (cases "connected e")
    case True
    then show ?thesis
      using remote_keeps_local [of "AddFoodLog e mtype item cals" M F w] by simp
  next
    case False
    then show ?thesis
      by (simp add: add_food_log_def add_food_log_body_def catch_all_def Let_def
          split: sum.splits)
  qed
  show "health_goals (snd (get_food_log M F e w)) = health_goals w"
  proof (cases "connected e")
    case True
    then show ?thesis
      using remote_keeps_local [of "GetFoodLog e" M F w] by simp
  next
    case False
    then show ?thesis
      by (simp add: get_food_log_def get_food_log_body_def catch_all_def Let_def
          split: sum.splits prod.splits)
  qed
  show "health_goals (snd (get_health_goals M F e w)) = health_goals w"
  proof (cases "connected e")
    case True
    then show ?thesis
      using remote_keeps_local [of "GetHealthGoals e" M F w] by simp
  next
    case False
    then show ?thesis
      by (simp add: get_health_goals_def get_health_goals_body_def catch_all_def Let_def)
  qed
qed

lemma step_keeps_flag:
  assumes "fresh_call c w" and "map_of (health_goals w) k = Some g"
  shows "\<exists>g'. map_of (health_goals (snd (step M F c w))) k = Some g'
               \<and> is_active g' = is_active g"
proof (cases c)
  case (AddHealthGoal e gtype target descr dcg)
  then show ?thesis
    using add_health_goal_keeps_goal [of e gtype target descr dcg w k g M F] assms by simp
next
  case (UpdateHealthGoal e gid target current descr)
  then show ?thesis
    using update_health_goal_keeps_flag [OF assms(2)] by simp
next
  case (GetHealthGoals e)
  then show ?thesis
    using assms(2) by (simp add: food_tools_keep_goals)
next
  case (AddFoodLog e mtype item cals)
  then show ?thesis
    using assms(2) by (simp add: food_tools_keep_goals)
next
  case (GetFoodLog e)
  then show ?thesis
    using assms(2) by (simp add: food_tools_keep_goals)
qed

lemma run_keeps_flag:
  assumes "fresh_run M F cs w" and "map_of (health_goals w) k = Some g"
  shows "\<exists>g'. map_of (health_goals (run M F cs w)) k = Some g' \<and> is_active g' = is_active g"
  using assms
proof (induction cs arbitrary: w g)
  case Nil
  then show ?case by simp
next
  case (Cons c cs)
  from Cons.prems have fc: "fresh_call c w" and fr: "fresh_run M F cs (snd (step M F c w))"
    by simp_all
  from step_keeps_flag [OF fc Cons.prems(2), of M F] obtain g1 where
    g1: "map_of (health_goals (snd (step M F c w))) k = Some g1" "is_active g1 = is_active g"
    by blast
  from Cons.IH [OF fr g1(1)] g1(2) show ?case
    by simp
qed

lemma run_keeps_food_logs: "prefix (food_logs w) (food_logs (run M F cs w))"
proof (induction cs arbitrary: w)
  case Nil
  show ?case by simp
next
  case (Cons c cs)
  have "prefix (food_logs w) (food_logs (snd (step M F c w)))"
    by (rule step_keeps_food_logs)
  also have "prefix (food_logs (snd (step M F c w))) (food_logs (run M F (c # cs) w))"
    using Cons.IH by simp
  finally show ?case .
qed

text \<open>
  Claim C9. No sequence of calls of the five tools changes the \<^verbatim>\<open>is_active\<close> flag of
  a goal, or a food log entry already recorded. For every sequence of calls, from every
  state, with any client and whatever \<^verbatim>\<open>is_connected()\<close> answers in each call: a goal
  of the in-memory dict is still there under its identifier after the calls, with the
  flag it had (present with its value, or absent), and the food log before the calls is
  a prefix of the food log after them. The identifiers drawn by \<^verbatim>\<open>uuid4\<close> for the
  dict are taken to be fresh. The only dicts the tools hand to the client for a goal
  that exists are those of type \<open>updates\<close>, which have no key \<^verbatim>\<open>is_active\<close>; what
  the remote store does with them is the client's part.
\<close>

theorem is_active_never_changed:
  assumes "fresh_run M F cs w"
  shows "(map_of (health_goals w) k = Some g \<longrightarrow>
            (\<exists>g'. map_of (health_goals (run M F cs w)) k = Some g'
                   \<and> is_active g' = is_active g))
         \<and> prefix (food_logs w) (food_logs (run M F cs w))"
  using run_keeps_flag [OF assms] run_keeps_food_logs by blast

theorem is_active_never_changed_witness:
  "fresh_run canned_manager one_decimal session history
   \<and> map_of (health_goals history) ''g1'' = Some paused
   \<and> (\<exists>g'. map_of (health_goals (run canned_manager one_decimal session history)) ''g1''
               = Some g' \<and> is_active g' = is_active paused)
   \<and> prefix (food_logs history) (food_logs (run canned_manager one_decimal session history))"
proof -
  have fr: "fresh_run canned_manager one_decimal session history"
    by (simp add: session_def history_def paused_def feast_row_def tool_defs sample_defs
        Let_def)
  have g: "map_of (health_goals history) ''g1'' = Some paused"
    by (simp add: history_def)
  from is_active_never_changed [OF fr, of "''g1''" paused] fr g show ?thesis
    by blast
qed

end
